theory Spec2Isabelle
  imports Complex_Main
begin

section \<open>Result discipline\<close>

text \<open>
  The error kinds that the document builder and the draw context report through
  their result-carrying return type.
\<close>

datatype ErrorCode =
    ColorOutOfRange
  | ColorspaceMismatch
  | OutputProfileMissing
  | MissingIntentIdentifier
  | AnnotationReuse
  | StructureReuse
  | RoleAlreadyDefined
  | SlashStart
  | NestedBMC
  | DrawStateEndMismatch
  | UnclosedMarkedContent
  | InvalidDrawContextType
  | IncorrectDocumentForObject
  | MissingGlyph
  | UnsupportedFormat
  | FreeTypeError
  | InvalidImageSize
  | MissingPixels
  | MaskAndAlpha
  | NoCmykProfile
  | AnnotationMissingRect
  | IndexOutOfBounds
  | Unreachable

text \<open>
  \<open>rvoe\<close> is the source's "return value or error". \<open>Ok v\<close> is a returned
  value, \<open>Err e\<close> is \<open>RETERR(e)\<close>, and \<open>Aborted\<close> stands for the ways
  the C++ leaves the function without returning: \<open>std::abort()\<close>, a failed
  \<open>assert\<close>, and an exception nobody catches (\<open>vector::at\<close> out of range,
  \<open>std::get\<close> on the wrong alternative).

  A method that mutates its object returns the result paired with the object as
  the call leaves it, so that "the failed call changed nothing" is a statement
  about the second component.
\<close>

datatype 'a rvoe = Ok 'a | Err ErrorCode | Aborted

section \<open>Draw context: the nesting stack (drawcontext.hpp)\<close>

datatype DrawStateType = MarkedContent | SaveState | Text

datatype CapyPDF_Draw_Context_Type =
    CAPY_DC_PAGE
  | CAPY_DC_COLOR_TILING
  | CAPY_DC_FORM_XOBJECT
  | CAPY_DC_TRANSPARENCY_GROUP

text \<open>
  \<open>'d\<close> is the C++ \<open>double\<close>. Its arithmetic is never interpreted here:
  the functions that compute with doubles take the operations as arguments.
\<close>

record 'd PdfRectangle =
  x1 :: 'd
  y1 :: 'd
  x2 :: 'd
  y2 :: 'd

text \<open>
  The members of \<open>PdfDrawContext\<close> that the modelled methods read or write.
  \<open>doc\<close> is the \<open>PdfDocument *\<close> the context was created with, kept as the
  address it points to.
\<close>

record 'd PdfDrawContext =
  doc :: nat
  context_type :: CapyPDF_Draw_Context_Type
  commands :: string
  dstate_stack :: "DrawStateType list"
  bbox :: "'d PdfRectangle"
  marked_depth :: int
  ind :: string

text \<open>
  \<open>indent\<close>: the loop over \<open>dstate_stack\<close> returns \<open>NestedBMC\<close> at the first
  entry equal to \<open>dtype\<close>, and runs only for \<open>MarkedContent\<close>; otherwise the
  entry is pushed and the indentation grows by two blanks.
\<close>

definition indent :: "'d PdfDrawContext \<Rightarrow> DrawStateType \<Rightarrow> unit rvoe \<times> 'd PdfDrawContext" where
  "indent ctx dtype =
     (if dtype = MarkedContent \<and> dtype \<in> set (dstate_stack ctx)
      then (Err NestedBMC, ctx)
      else (Ok (), ctx\<lparr>dstate_stack := dstate_stack ctx @ [dtype],
                        ind := ind ctx @ ''  ''\<rparr>))"

text \<open>
  \<open>dedent\<close>: both mismatch checks come before the \<open>std::abort()\<close> on a
  too short indentation, and all three before any change.
\<close>

definition dedent :: "'d PdfDrawContext \<Rightarrow> DrawStateType \<Rightarrow> unit rvoe \<times> 'd PdfDrawContext" where
  "dedent ctx dtype =
     (if dstate_stack ctx = [] then (Err DrawStateEndMismatch, ctx)
      else if last (dstate_stack ctx) \<noteq> dtype then (Err DrawStateEndMismatch, ctx)
      else if length (ind ctx) < 2 then (Aborted, ctx)
      else (Ok (), ctx\<lparr>dstate_stack := butlast (dstate_stack ctx),
                        ind := butlast (butlast (ind ctx))\<rparr>))"

definition has_unclosed_state :: "'d PdfDrawContext \<Rightarrow> bool" where
  "has_unclosed_state ctx = (dstate_stack ctx \<noteq> [])"

section \<open>Text and numbers\<close>

definition nl :: string where
  "nl = [CHR 0x0A]"

text \<open>Decimal rendering of an integer, what \<open>fmt::format("{}", n)\<close> prints.\<close>

fun fmt_nat :: "nat \<Rightarrow> string" where
  "fmt_nat n =
     (if n < 10 then [''0123456789'' ! n]
      else fmt_nat (n div 10) @ [''0123456789'' ! (n mod 10)])"

declare fmt_nat.simps [simp del]

definition fmt_int :: "int \<Rightarrow> string" where
  "fmt_int i = (if i < 0 then CHR ''-'' # fmt_nat (nat (- i)) else fmt_nat (nat i))"

text \<open>
  \<open>i32 n\<close> is the cast \<open>(int32_t)n\<close> of a \<open>size_t\<close>: the value modulo
  \<open>2^32\<close>, read as a signed 32-bit number. Ids and object numbers are
  \<open>int32_t\<close> in the source and \<open>int\<close> here; the cast is the only place
  where the source narrows a container size.
\<close>

definition i32 :: "nat \<Rightarrow> int" where
  "i32 n = signed_take_bit 31 (int n)"

section \<open>Draw context: the operators that open and close a block\<close>







section \<open>The document: data (pdfdocument.cpp)\<close>

datatype CapyPDF_Colorspace = CAPY_CS_DEVICE_RGB | CAPY_CS_DEVICE_GRAY | CAPY_CS_DEVICE_CMYK

datatype CapyPDF_IntentSubtype =
  CAPY_INTENT_SUBTYPE_PDFX | CAPY_INTENT_SUBTYPE_PDFA | CAPY_INTENT_SUBTYPE_PDFE

fun colorspace_names :: "CapyPDF_Colorspace \<Rightarrow> string" where
  "colorspace_names CAPY_CS_DEVICE_RGB = ''/DeviceRGB''"
| "colorspace_names CAPY_CS_DEVICE_GRAY = ''/DeviceGray''"
| "colorspace_names CAPY_CS_DEVICE_CMYK = ''/DeviceCMYK''"

fun intentnames :: "CapyPDF_IntentSubtype \<Rightarrow> string" where
  "intentnames CAPY_INTENT_SUBTYPE_PDFX = ''/GTS_PDFX''"
| "intentnames CAPY_INTENT_SUBTYPE_PDFA = ''/GTS_PDFA''"
| "intentnames CAPY_INTENT_SUBTYPE_PDFE = ''/ISO_PDFE''"

fun num_channels_for :: "CapyPDF_Colorspace \<Rightarrow> int" where
  "num_channels_for CAPY_CS_DEVICE_RGB = 3"
| "num_channels_for CAPY_CS_DEVICE_GRAY = 1"
| "num_channels_for CAPY_CS_DEVICE_CMYK = 4"

text \<open>
  Structures that the document only stores and hands on; none of the modelled
  functions looks inside them.
\<close>

typedecl PageProperties
typedecl Transition
typedecl Annotation
typedecl PdfBox

record PdfGenerationData =
  title :: string
  author :: string
  creator :: string
  lang :: string
  output_colorspace :: CapyPDF_Colorspace
  compress_streams :: bool
  subtype :: "CapyPDF_IntentSubtype option"
  intent_condition_identifier :: string
  is_tagged :: bool

text \<open>The colour converter, as far as the document asks it: the three profiles.\<close>

record PdfColorConverter =
  get_rgb :: string
  get_gray :: string
  get_cmyk :: string

record DelayedPage =
  page_num :: int
  custom_props :: PageProperties
  used_form_widgets :: "int list"
  used_annotations :: "int list"
  transition :: "Transition option"
  subnav_root :: "int option"
  structparents :: "int option"

text \<open>
  The alternatives of \<open>ObjectType\<close>, the variant stored in \<open>document_objects\<close>.
  \<open>FullPDFObject\<close> is dictionary and stream, \<open>DeflatePDFObject\<close> is unclosed
  dictionary and stream.
\<close>

datatype ObjectType =
    DummyIndexZero
  | FullPDFObject string string
  | DeflatePDFObject string string
  | DelayedSubsetFontData int int
  | DelayedSubsetFontDescriptor int int int
  | DelayedSubsetCMap int int
  | DelayedSubsetFont int int int
  | DelayedPages
  | DelayedPageObject DelayedPage
  | DelayedCheckboxWidgetAnnotation int PdfBox int int string
  | DelayedAnnotation int Annotation
  | DelayedStructItem int

record PageOffsets =
  resource_obj_num :: int
  commands_obj_num :: int
  page_obj_num :: int

record IccInfo =
  stream_num :: int
  object_num :: int
  num_channels :: int

record StructureUsage =
  su_page_num :: int
  su_mcid_num :: int

record ImageInfo =
  im_w :: int
  im_h :: int
  im_obj :: int

text \<open>
  Modelled from the spec: the state of a \<open>FontSubsetter\<close>, whose class is not
  among the sources. Section 4.4: an ordered list of subsets, each a vector of
  glyph records. A subset is the list of its codepoints, position being the
  local glyph id.
\<close>

type_synonym FontSubsetter = "nat list list"

text \<open>
  The members of \<open>PdfDocument\<close> that the modelled methods read or write. The
  three usage tables are \<open>std::unordered_map\<close>s.
\<close>

record PdfDocument =
  opts :: PdfGenerationData
  cm :: PdfColorConverter
  document_objects :: "ObjectType list"
  pages :: "PageOffsets list"
  icc_profiles :: "IccInfo list"
  separation_objects :: "int list"
  image_info :: "ImageInfo list"
  transparency_groups :: "int list"
  fonts :: "FontSubsetter list"
  form_use :: "int \<rightharpoonup> int"
  annotation_use :: "int \<rightharpoonup> int"
  structure_use :: "int \<rightharpoonup> StructureUsage"
  structure_parent_tree_items :: "int list list"
  output_profile :: "int option"
  output_intent_object :: "int option"
  page_group_object :: int
  pages_object :: int

text \<open>
  What the build and the collaborators outside the document contribute:
  \<open>ndebug\<close> says whether \<open>assert\<close> is compiled out, the rest are the helpers
  that the document calls and that live in other files. \<open>ocg_object_number\<close>
  is \<open>None\<close> where the lookup of the group throws, and \<open>serialize_trans tr indent\<close>
  is the text that the call appends.
\<close>

record externals =
  ndebug :: bool
  utf8_to_pdfmetastr :: "string \<Rightarrow> string"
  pdfstring_quote :: "string \<Rightarrow> string"
  current_date_string :: "nat \<Rightarrow> string"
  version_str :: string
  load_file :: "string \<Rightarrow> string rvoe"
  get_num_channels :: "string \<Rightarrow> int rvoe"
  flate_compress :: "string \<Rightarrow> string rvoe"
  ocg_object_number :: "int \<Rightarrow> int option"
  serialize_trans :: "Transition \<Rightarrow> string \<Rightarrow> string"

section \<open>The object table\<close>

text \<open>\<open>add_object\<close>: the new number is the size before the push, cast to \<open>int32_t\<close>.\<close>

definition add_object :: "PdfDocument \<Rightarrow> ObjectType \<Rightarrow> int \<times> PdfDocument" where
  "add_object d object =
     (i32 (length (document_objects d)),
      d\<lparr>document_objects := document_objects d @ [object]\<rparr>)"

section \<open>ICC profiles\<close>

text \<open>
  \<open>find_icc_profile\<close>: the loop over \<open>icc_profiles\<close>, \<open>i\<close> being the index of
  the head of the remaining list. \<open>document_objects.at\<close> throws out of range
  and \<open>std::get\<close> throws on another alternative than \<open>DeflatePDFObject\<close>
  (which the \<open>assert\<close> before it also demands), so both end in \<open>Aborted\<close>.
\<close>

fun find_icc_loop :: "ObjectType list \<Rightarrow> IccInfo list \<Rightarrow> nat \<Rightarrow> string \<Rightarrow> int option rvoe" where
  "find_icc_loop objs [] i contents = Ok None"
| "find_icc_loop objs (p # ps) i contents =
     (if stream_num p < 0 \<or> length objs \<le> nat (stream_num p) then Aborted
      else (case objs ! nat (stream_num p) of
              DeflatePDFObject unclosed_dictionary stream \<Rightarrow>
                if stream = contents then Ok (Some (i32 i))
                else find_icc_loop objs ps (Suc i) contents
            | _ \<Rightarrow> Aborted))"

definition find_icc_profile :: "PdfDocument \<Rightarrow> string \<Rightarrow> int option rvoe" where
  "find_icc_profile d contents = find_icc_loop (document_objects d) (icc_profiles d) 0 contents"

text \<open>
  \<open>store_icc_profile\<close> does not look for an equal profile to reuse: it asserts
  that there is none. With assertions compiled in, an equal profile aborts; with
  \<open>NDEBUG\<close> the profile is stored once more.
\<close>

definition store_icc_profile ::
  "externals \<Rightarrow> PdfDocument \<Rightarrow> string \<Rightarrow> int \<Rightarrow> int rvoe \<times> PdfDocument" where
  "store_icc_profile X d contents channels =
     (case find_icc_profile d contents of
        Aborted \<Rightarrow> (Aborted, d)
      | Err e \<Rightarrow> (Err e, d)
      | Ok existing \<Rightarrow>
          if \<not> ndebug X \<and> existing \<noteq> None then (Aborted, d)
          else if contents = [] then (Ok (- 1), d)
          else
            (let buf = ''<<'' @ nl @ ''  /N '' @ fmt_int channels @ nl;
                 (stream_obj_id, d1) = add_object d (DeflatePDFObject buf contents);
                 (obj_id, d2) =
                    add_object d1
                      (FullPDFObject (''[ /ICCBased '' @ fmt_int stream_obj_id @ '' 0 R ]'' @ nl) []);
                 d3 = d2\<lparr>icc_profiles := icc_profiles d2 @
                          [\<lparr>stream_num = stream_obj_id, object_num = obj_id,
                            num_channels = channels\<rparr>]\<rparr>
             in (Ok (i32 (length (icc_profiles d3)) - 1), d3)))"

text \<open>
  \<open>load_icc_file\<close> looks for the contents first and stores them only when they
  are not found.
\<close>

definition load_icc_file ::
  "externals \<Rightarrow> PdfDocument \<Rightarrow> string \<Rightarrow> int rvoe \<times> PdfDocument" where
  "load_icc_file X d fname =
     (case load_file X fname of
        Aborted \<Rightarrow> (Aborted, d)
      | Err e \<Rightarrow> (Err e, d)
      | Ok contents \<Rightarrow>
          (case find_icc_profile d contents of
             Aborted \<Rightarrow> (Aborted, d)
           | Err e \<Rightarrow> (Err e, d)
           | Ok (Some iccid) \<Rightarrow> (Ok iccid, d)
           | Ok None \<Rightarrow>
               (case get_num_channels X contents of
                  Aborted \<Rightarrow> (Aborted, d)
                | Err e \<Rightarrow> (Err e, d)
                | Ok channels \<Rightarrow> store_icc_profile X d contents channels)))"

section \<open>Construction of the document\<close>

text \<open>
  The operations on \<open>double\<close> that the modelled code uses, as arguments:
  subtraction and division, the test \<open>v < 0 || v > 1.0\<close> of
  \<open>append_floatvalue\<close>, the constant \<open>1.0\<close>, the byte-swapped bytes of
  \<open>numeric_limits<T>::max() * v\<close> for \<open>uint32_t\<close> and \<open>uint16_t\<close>, and
  the two renderings \<open>{}\<close> and \<open>{:f}\<close> of the formatting library.
\<close>

record 'd fpu =
  fp_sub :: "'d \<Rightarrow> 'd \<Rightarrow> 'd"
  fp_div :: "'d \<Rightarrow> 'd \<Rightarrow> 'd"
  fp_out_of_unit :: "'d \<Rightarrow> bool"
  fp_one :: 'd
  fp_be32 :: "'d \<Rightarrow> string"
  fp_be16 :: "'d \<Rightarrow> string"
  fp_fmt :: "'d \<Rightarrow> string"
  fp_fmt_f :: "'d \<Rightarrow> string"

definition generate_info_object :: "externals \<Rightarrow> PdfDocument \<Rightarrow> PdfDocument" where
  "generate_info_object X d =
     (let gd = opts d;
          dictionary =
            ''<<'' @ nl
            @ (if title gd \<noteq> [] then ''  /Title '' @ utf8_to_pdfmetastr X (title gd) @ nl else [])
            @ (if author gd \<noteq> [] then ''  /Author '' @ utf8_to_pdfmetastr X (author gd) @ nl else [])
            @ (if creator gd \<noteq> [] then ''  /Creator '' @ utf8_to_pdfmetastr X (creator gd) @ nl else [])
            @ ''  /Producer (CapyPDF '' @ version_str X @ '')'' @ nl
            @ ''  /CreationDate '' @ current_date_string X 0 @ nl
            @ ''  /ModDate '' @ current_date_string X 1 @ nl
            @ ''  /Trapped /False'' @ nl
            @ (if subtype gd = Some CAPY_INTENT_SUBTYPE_PDFX
               then ''  /GTS_PDFXVersion (PDF/X-3:2003)'' @ nl else [])
            @ ''>>'' @ nl
      in snd (add_object d (FullPDFObject dictionary [])))"

definition create_separation ::
  "'d fpu \<Rightarrow> PdfDocument \<Rightarrow> string \<Rightarrow> 'd \<times> 'd \<times> 'd \<times> 'd \<Rightarrow> int \<times> PdfDocument" where
  "create_separation F d name fallback =
     (case fallback of (fc, fm, fy, fk) \<Rightarrow>
        (let stream = ''{ dup '' @ fp_fmt F fc @ '' mul'' @ nl
                      @ ''exch '' @ fp_fmt F fm @ '' exch dup '' @ fp_fmt F fy @ '' mul'' @ nl
                      @ ''exch '' @ fp_fmt F fk @ '' mul'' @ nl
                      @ ''}'' @ nl;
             buf = ''<<'' @ nl
                   @ ''  /FunctionType 4'' @ nl
                   @ ''  /Domain [ 0.0 1.0 ]'' @ nl
                   @ ''  /Range [ 0.0 1.0 0.0 1.0 0.0 1.0 0.0 1.0 ]'' @ nl
                   @ ''  /Length '' @ fmt_nat (length stream) @ nl
                   @ ''>>'' @ nl;
             (fn_num, d1) = add_object d (FullPDFObject buf stream);
             buf2 = ''['' @ nl
                    @ ''  /Separation'' @ nl
                    @ ''    /'' @ name @ nl
                    @ ''    /DeviceCMYK'' @ nl
                    @ ''    '' @ fmt_int fn_num @ '' 0 R'' @ nl
                    @ '']'' @ nl;
             (sep_num, d2) = add_object d1 (FullPDFObject buf2 []);
             d3 = d2\<lparr>separation_objects := separation_objects d2 @ [sep_num]\<rparr>
         in (i32 (length (separation_objects d3)) - 1, d3)))"

definition create_page_group :: "PdfDocument \<Rightarrow> int \<times> PdfDocument" where
  "create_page_group d =
     add_object d
       (FullPDFObject
          (''<<'' @ nl
           @ ''  /S /Transparency'' @ nl
           @ ''  /CS '' @ colorspace_names (output_colorspace (opts d)) @ nl
           @ ''>>'' @ nl) [])"

text \<open>
  \<open>create_output_intent\<close>: the two \<open>assert\<close>s (without them the function
  would read an empty \<open>optional\<close>; \<open>init\<close> calls it with both set), then
  \<open>icc_profiles.at\<close>, which throws when the stored id is no index of the list.
\<close>

definition create_output_intent :: "externals \<Rightarrow> PdfDocument \<Rightarrow> unit rvoe \<times> PdfDocument" where
  "create_output_intent X d =
     (case (output_profile d, subtype (opts d)) of
        (Some prof, Some st) \<Rightarrow>
          if prof < 0 \<or> length (icc_profiles d) \<le> nat prof then (Aborted, d)
          else
            (let buf = ''<<'' @ nl
                       @ ''  /Type /OutputIntent'' @ nl
                       @ ''  /S '' @ intentnames st @ nl
                       @ ''  /OutputConditionIdentifier ''
                       @ pdfstring_quote X (intent_condition_identifier (opts d)) @ nl
                       @ ''  /DestOutputProfile ''
                       @ fmt_int (stream_num (icc_profiles d ! nat prof)) @ '' 0 R'' @ nl
                       @ ''>>'' @ nl;
                 (n, d1) = add_object d (FullPDFObject buf [])
             in (Ok (), d1\<lparr>output_intent_object := Some n\<rparr>))
      | _ \<Rightarrow> (Aborted, d))"

text \<open>
  \<open>init\<close>, in four steps. The first pushes the sentinel, writes the info
  object and, for CMYK output, the separation \<open>All\<close>.
\<close>

definition init_start :: "'d fpu \<Rightarrow> externals \<Rightarrow> PdfDocument \<Rightarrow> PdfDocument" where
  "init_start F X d =
     (let d1 = d\<lparr>document_objects := document_objects d @ [DummyIndexZero]\<rparr>;
          d2 = generate_info_object X d1
      in if output_colorspace (opts d2) = CAPY_CS_DEVICE_CMYK
         then snd (create_separation F d2 ''All'' (fp_one F, fp_one F, fp_one F, fp_one F))
         else d2)"

text \<open>The \<open>switch\<close> on the output colourspace, which stores the output profile.\<close>

definition init_output_profile :: "externals \<Rightarrow> PdfDocument \<Rightarrow> unit rvoe \<times> PdfDocument" where
  "init_output_profile X d =
     (let keep = (\<lambda>r. case r of
                     (Ok iccid, d') \<Rightarrow> (Ok (), d'\<lparr>output_profile := Some iccid\<rparr>)
                   | (Err e, d') \<Rightarrow> (Err e, d')
                   | (Aborted, d') \<Rightarrow> (Aborted, d'))
      in case output_colorspace (opts d) of
           CAPY_CS_DEVICE_RGB \<Rightarrow>
             if get_rgb (cm d) \<noteq> [] then keep (store_icc_profile X d (get_rgb (cm d)) 3)
             else (Ok (), d)
         | CAPY_CS_DEVICE_GRAY \<Rightarrow>
             if get_gray (cm d) \<noteq> [] then keep (store_icc_profile X d (get_gray (cm d)) 1)
             else (Ok (), d)
         | CAPY_CS_DEVICE_CMYK \<Rightarrow>
             if get_cmyk (cm d) = [] then (Err OutputProfileMissing, d)
             else keep (store_icc_profile X d (get_cmyk (cm d)) 4))"

text \<open>The page group, the \<open>DelayedPages\<close> slot and its number.\<close>

definition init_pages :: "PdfDocument \<Rightarrow> PdfDocument" where
  "init_pages d =
     (let (g, d1) = create_page_group d;
          d2 = d1\<lparr>page_group_object := g\<rparr>;
          d3 = d2\<lparr>document_objects := document_objects d2 @ [DelayedPages]\<rparr>
      in d3\<lparr>pages_object := i32 (length (document_objects d3) - 1)\<rparr>)"

text \<open>The output intent, when a subtype is asked for.\<close>

definition init_intent :: "externals \<Rightarrow> PdfDocument \<Rightarrow> unit rvoe \<times> PdfDocument" where
  "init_intent X d =
     (if subtype (opts d) \<noteq> None then
        (if output_profile d = None then (Err OutputProfileMissing, d)
         else if intent_condition_identifier (opts d) = [] then (Err MissingIntentIdentifier, d)
         else create_output_intent X d)
      else (Ok (), d))"

definition init :: "'d fpu \<Rightarrow> externals \<Rightarrow> PdfDocument \<Rightarrow> unit rvoe \<times> PdfDocument" where
  "init F X d =
     (case init_output_profile X (init_start F X d) of
        (Ok u, d1) \<Rightarrow> init_intent X (init_pages d1)
      | (Err e, d1) \<Rightarrow> (Err e, d1)
      | (Aborted, d1) \<Rightarrow> (Aborted, d1))"

text \<open>
  The constructor leaves every container empty; \<open>construct\<close> runs \<open>init\<close> on
  that document.
\<close>

definition new_document :: "PdfGenerationData \<Rightarrow> PdfColorConverter \<Rightarrow> PdfDocument" where
  "new_document gd c =
     \<lparr>opts = gd, cm = c, document_objects = [], pages = [], icc_profiles = [],
      separation_objects = [], image_info = [], transparency_groups = [], fonts = [],
      form_use = Map.empty, annotation_use = Map.empty, structure_use = Map.empty,
      structure_parent_tree_items = [], output_profile = None,
      output_intent_object = None, page_group_object = 0, pages_object = 0\<rparr>"

definition construct ::
  "'d fpu \<Rightarrow> externals \<Rightarrow> PdfGenerationData \<Rightarrow> PdfColorConverter \<Rightarrow> PdfDocument rvoe" where
  "construct F X gd c =
     (case init F X (new_document gd c) of
        (Ok u, d) \<Rightarrow> Ok d
      | (Err e, d) \<Rightarrow> Err e
      | (Aborted, d) \<Rightarrow> Aborted)"

section \<open>Pages\<close>

record SubPageNavigation =
  sn_id :: int
  sn_tr :: "Transition option"

text \<open>One line \<open>"      {} 0 R\n"\<close> per navigation entry, with its group's object number.\<close>

definition ocg_lines :: "int list \<Rightarrow> string" where
  "ocg_lines nums = concat (map (\<lambda>n. ''      '' @ fmt_int n @ '' 0 R'' @ nl) nums)"

text \<open>
  The dictionary of the \<open>i\<close>-th navigation node; \<open>prev\<close> is the group number
  of the entry before it (for \<open>i > 0\<close>).
\<close>

definition navnode_dict ::
  "externals \<Rightarrow> int \<Rightarrow> nat \<Rightarrow> int \<Rightarrow> Transition option \<Rightarrow> int \<Rightarrow> string" where
  "navnode_dict X first_obj i num tr prev =
     ''<<'' @ nl @ ''  /Type /NavNode'' @ nl
     @ ''  /NA  <<'' @ nl
     @ ''    /S /SetOCGState'' @ nl
     @ ''    /State [ /ON '' @ fmt_int num @ '' 0 R ]'' @ nl
     @ (case tr of
          Some t \<Rightarrow> ''    /Next <<'' @ nl @ ''      /S /Trans'' @ nl
                    @ serialize_trans X t ''      '' @ ''    >>'' @ nl
        | None \<Rightarrow> [])
     @ ''  >>'' @ nl
     @ ''  /Next '' @ fmt_int (first_obj + int i + 1) @ '' 0 R'' @ nl
     @ (if 0 < i then
          ''  /PA <<'' @ nl
          @ ''    /S /SetOCGState'' @ nl
          @ ''    /State [ /OFF '' @ fmt_int prev @ '' 0 R ]'' @ nl
          @ ''  >>'' @ nl
          @ ''  /Prev '' @ fmt_int (first_obj + int i - 1) @ '' 0 R'' @ nl
        else [])
     @ ''>>'' @ nl"

text \<open>The loop \<open>for(size_t i = 0; i < subnav.size(); ++i)\<close>, from index \<open>i\<close> on.\<close>

fun add_navnodes ::
  "externals \<Rightarrow> int \<Rightarrow> nat \<Rightarrow> int \<Rightarrow> (int \<times> Transition option) list \<Rightarrow> PdfDocument \<Rightarrow> PdfDocument" where
  "add_navnodes X first_obj i prev [] d = d"
| "add_navnodes X first_obj i prev ((num, tr) # rest) d =
     add_navnodes X first_obj (Suc i) num rest
       (snd (add_object d (FullPDFObject (navnode_dict X first_obj i num tr prev) [])))"

text \<open>
  \<open>create_subnavigation\<close>. It asserts that \<open>subnav\<close> is not empty (and
  would read \<open>subnav.back()\<close> of an empty vector otherwise; \<open>add_page\<close> never
  calls it so). Every text it writes needs the object numbers of the groups; a
  lookup that throws ends the process, whatever was added before, so the lookups
  are made first.
\<close>

definition create_subnavigation ::
  "externals \<Rightarrow> PdfDocument \<Rightarrow> SubPageNavigation list \<Rightarrow> int rvoe \<times> PdfDocument" where
  "create_subnavigation X d subnav =
     (if subnav = [] then (Aborted, d)
      else if \<exists>sn \<in> set subnav. ocg_object_number X (sn_id sn) = None then (Aborted, d)
      else
        (let nums = map (\<lambda>sn. the (ocg_object_number X (sn_id sn))) subnav;
             root_obj = i32 (length (document_objects d));
             rootbuf = ''<<'' @ nl @ ''  /Type /NavNode'' @ nl
                       @ ''  /NA <<'' @ nl
                       @ ''    /S /SetOCGState'' @ nl
                       @ ''    /State [ /OFF'' @ nl
                       @ ocg_lines nums
                       @ ''    ]'' @ nl @ ''  >>'' @ nl
                       @ ''  /Next '' @ fmt_int (root_obj + 1) @ '' 0 R'' @ nl
                       @ ''  /PA <<'' @ nl
                       @ ''    /S /SetOCGState'' @ nl
                       @ ''    /State [ /ON'' @ nl
                       @ ocg_lines nums
                       @ ''    ]'' @ nl @ ''  >>'' @ nl
                       @ ''  /Prev '' @ fmt_int (root_obj + 1 + int (length subnav)) @ '' 0 R'' @ nl
                       @ ''>>'' @ nl;
             d1 = snd (add_object d (FullPDFObject rootbuf []));
             first_obj = i32 (length (document_objects d1));
             d2 = add_navnodes X first_obj 0 0 (zip nums (map sn_tr subnav)) d1;
             lastbuf = ''<<'' @ nl @ ''  /Type /NavNode'' @ nl
                       @ ''  /PA <<'' @ nl
                       @ ''    /S /SetOCGState'' @ nl
                       @ ''    /State [ /OFF '' @ fmt_int (last nums) @ '' 0 R ]'' @ nl
                       @ ''  >>'' @ nl
                       @ ''  /Prev '' @ fmt_int (first_obj + int (length subnav) - 1) @ '' 0 R'' @ nl
                       @ ''>>'' @ nl;
             d3 = snd (add_object d2 (FullPDFObject lastbuf []))
         in (Ok root_obj, d3)))"

text \<open>
  The three loops at the end of \<open>add_page\<close> that record the use of the
  widgets, the annotations and the structure items; \<open>mcid_num\<close> counts up from
  the value given.
\<close>

fun record_use :: "(int \<rightharpoonup> int) \<Rightarrow> int list \<Rightarrow> int \<Rightarrow> (int \<rightharpoonup> int)" where
  "record_use m [] page_object_num = m"
| "record_use m (a # as) page_object_num = record_use (m(a \<mapsto> page_object_num)) as page_object_num"

fun record_structure_use ::
  "(int \<rightharpoonup> StructureUsage) \<Rightarrow> int list \<Rightarrow> int \<Rightarrow> int \<Rightarrow> (int \<rightharpoonup> StructureUsage)" where
  "record_structure_use m [] page mcid_num = m"
| "record_structure_use m (s # ss) page mcid_num =
     record_structure_use (m(s \<mapsto> \<lparr>su_page_num = page, su_mcid_num = mcid_num\<rparr>)) ss page
       (mcid_num + 1)"

text \<open>
  \<open>add_page\<close>. The two \<open>unordered_set\<close>s of widgets and annotations come as
  lists, in the order the loops meet their elements. The three reuse checks
  return before the first write. The rest is \<open>add_page_body\<close>.
\<close>

definition add_page_body ::
  "externals \<Rightarrow> PdfDocument \<Rightarrow> string \<Rightarrow> string \<Rightarrow> string \<Rightarrow> PageProperties \<Rightarrow>
   int list \<Rightarrow> int list \<Rightarrow> int list \<Rightarrow> Transition option \<Rightarrow> SubPageNavigation list \<Rightarrow>
   unit rvoe \<times> PdfDocument" where
  "add_page_body X d resource_dict unclosed_object_dict command_stream props fws annots structs
     tr subnav =
     (let (resource_num, d1) = add_object d (FullPDFObject resource_dict []);
          (commands_num, d2) =
             (if compress_streams (opts d1)
              then add_object d1 (DeflatePDFObject unclosed_object_dict command_stream)
              else add_object d1
                     (FullPDFObject
                        (unclosed_object_dict @ ''  /Length '' @ fmt_nat (length command_stream)
                         @ nl @ ''>>'' @ nl)
                        command_stream));
          p0 = \<lparr>page_num = i32 (length (pages d2)), custom_props = props,
                used_form_widgets = fws, used_annotations = annots,
                transition = tr, subnav_root = None, structparents = None\<rparr>
      in case (if subnav \<noteq> [] then create_subnavigation X d2 subnav else (Ok 0, d2)) of
           (Aborted, d3) \<Rightarrow> (Aborted, d3)
         | (Err e, d3) \<Rightarrow> (Err e, d3)
         | (Ok subnav_obj, d3) \<Rightarrow>
             (let p1 = (if subnav \<noteq> [] then p0\<lparr>subnav_root := Some subnav_obj\<rparr> else p0);
                  p2 = (if structs \<noteq> []
                        then p1\<lparr>structparents := Some (i32 (length (structure_parent_tree_items d3)))\<rparr>
                        else p1);
                  d4 = (if structs \<noteq> []
                        then d3\<lparr>structure_parent_tree_items :=
                                  structure_parent_tree_items d3 @ [structs]\<rparr>
                        else d3);
                  (page_object_num, d5) = add_object d4 (DelayedPageObject p2);
                  d6 = d5\<lparr>form_use := record_use (form_use d5) fws page_object_num,
                          annotation_use := record_use (annotation_use d5) annots page_object_num,
                          structure_use :=
                            record_structure_use (structure_use d5) structs
                              (i32 (length (pages d5))) 0\<rparr>
              in (Ok (),
                  d6\<lparr>pages := pages d6 @
                        [\<lparr>resource_obj_num = resource_num, commands_obj_num = commands_num,
                          page_obj_num = page_object_num\<rparr>]\<rparr>)))"

definition add_page ::
  "externals \<Rightarrow> PdfDocument \<Rightarrow> string \<Rightarrow> string \<Rightarrow> string \<Rightarrow> PageProperties \<Rightarrow>
   int list \<Rightarrow> int list \<Rightarrow> int list \<Rightarrow> Transition option \<Rightarrow> SubPageNavigation list \<Rightarrow>
   unit rvoe \<times> PdfDocument" where
  "add_page X d resource_dict unclosed_object_dict command_stream props fws annots structs
     tr subnav =
     (if \<exists>a \<in> set fws. form_use d a \<noteq> None then (Err AnnotationReuse, d)
      else if \<exists>a \<in> set annots. annotation_use d a \<noteq> None then (Err AnnotationReuse, d)
      else if \<exists>s \<in> set structs. structure_use d s \<noteq> None then (Err StructureReuse, d)
      else add_page_body X d resource_dict unclosed_object_dict command_stream props fws annots
             structs tr subnav)"

section \<open>Shadings\<close>

text \<open>\<open>ERC\<close> / \<open>ERCV\<close>: go on with the value, or return the error.\<close>

fun ERC :: "'a rvoe \<Rightarrow> ('a \<Rightarrow> 'b rvoe) \<Rightarrow> 'b rvoe" where
  "ERC (Ok v) f = f v"
| "ERC (Err e) f = Err e"
| "ERC Aborted f = Aborted"

record 'd Point =
  px :: 'd
  py :: 'd

text \<open>
  The alternatives of the variant \<open>Color\<close>. The three device colours carry
  their components (\<open>r g b\<close>, \<open>v\<close>, \<open>c m y k\<close>); the members of the other
  four are not read by the modelled functions.
\<close>

datatype 'd Color =
    DeviceRGBColor 'd 'd 'd
  | DeviceGrayColor 'd
  | DeviceCMYKColor 'd 'd 'd 'd
  | ICCColor
  | LabColor
  | PatternColor
  | SeparationColor

record 'd ShadingPoint =
  sp_p :: "'d Point"
  sp_c :: "'d Color"

record 'd ShadingElement =
  sp :: "'d ShadingPoint"
  flag :: int

text \<open>
  A patch of a type 6 shading: a full patch has 12 control points and 4 corner
  colours (\<open>std::array\<close>s in the source, lists here), a continuation patch is
  the other alternative of the variant.
\<close>

datatype 'd CoonsPatches =
    FullCoonsPatch "'d Point list" "'d Color list"
  | ContinuationCoonsPatch int "'d Point list" "'d Color list"

text \<open>
  \<open>ShadingType4\<close> is \<open>('d, 'd ShadingElement) Shading\<close> and \<open>ShadingType6\<close>
  is \<open>('d, 'd CoonsPatches) Shading\<close>.
\<close>

record ('d, 'e) Shading =
  elements :: "'e list"
  minx :: 'd
  miny :: 'd
  maxx :: 'd
  maxy :: 'd
  colorspace :: CapyPDF_Colorspace

definition append_floatvalue32 :: "'d fpu \<Rightarrow> string \<Rightarrow> 'd \<Rightarrow> string rvoe" where
  "append_floatvalue32 F buf v =
     (if fp_out_of_unit F v then Err ColorOutOfRange else Ok (buf @ fp_be32 F v))"

definition append_floatvalue16 :: "'d fpu \<Rightarrow> string \<Rightarrow> 'd \<Rightarrow> string rvoe" where
  "append_floatvalue16 F buf v =
     (if fp_out_of_unit F v then Err ColorOutOfRange else Ok (buf @ fp_be16 F v))"

definition xratio_of :: "'d fpu \<Rightarrow> ('d, 'e) Shading \<Rightarrow> 'd Point \<Rightarrow> 'd" where
  "xratio_of F shade p = fp_div F (fp_sub F (px p) (minx shade)) (fp_sub F (maxx shade) (minx shade))"

definition yratio_of :: "'d fpu \<Rightarrow> ('d, 'e) Shading \<Rightarrow> 'd Point \<Rightarrow> 'd" where
  "yratio_of F shade p = fp_div F (fp_sub F (py p) (miny shade)) (fp_sub F (maxy shade) (miny shade))"

text \<open>
  The colour of a type 4 vertex: the alternative of the colour is asked first,
  then the colourspace of the shade; a colour that is no device colour aborts.
\<close>

fun shade4_color :: "'d fpu \<Rightarrow> CapyPDF_Colorspace \<Rightarrow> string \<Rightarrow> 'd Color \<Rightarrow> string rvoe" where
  "shade4_color F cs s (DeviceRGBColor cr cg cb) =
     (if cs \<noteq> CAPY_CS_DEVICE_RGB then Err ColorspaceMismatch
      else ERC (append_floatvalue16 F s cr) (\<lambda>s1.
           ERC (append_floatvalue16 F s1 cg) (\<lambda>s2.
           append_floatvalue16 F s2 cb)))"
| "shade4_color F cs s (DeviceGrayColor cv) =
     (if cs \<noteq> CAPY_CS_DEVICE_GRAY then Err ColorspaceMismatch
      else append_floatvalue16 F s cv)"
| "shade4_color F cs s (DeviceCMYKColor cc cm' cy ck) =
     (if cs \<noteq> CAPY_CS_DEVICE_CMYK then Err ColorspaceMismatch
      else ERC (append_floatvalue16 F s cc) (\<lambda>s1.
           ERC (append_floatvalue16 F s1 cm') (\<lambda>s2.
           ERC (append_floatvalue16 F s2 cy) (\<lambda>s3.
           append_floatvalue16 F s3 ck))))"
| "shade4_color F cs s other = Aborted"

text \<open>
  One round of the loop of \<open>serialize_shade4\<close>. The flag is narrowed to
  \<open>char\<close>; the assertion \<open>flag >= 0 && flag < 3\<close> holds exactly when the byte
  is 0, 1 or 2.
\<close>

definition shade4_element ::
  "externals \<Rightarrow> 'd fpu \<Rightarrow> ('d, 'd ShadingElement) Shading \<Rightarrow> string \<Rightarrow> 'd ShadingElement \<Rightarrow> string rvoe" where
  "shade4_element X F shade s e =
     (if \<not> ndebug X \<and> \<not> flag e mod 256 < 3 then Aborted
      else ERC (append_floatvalue32 F (s @ [char_of (flag e)]) (xratio_of F shade (sp_p (sp e)))) (\<lambda>s1.
           ERC (append_floatvalue32 F s1 (yratio_of F shade (sp_p (sp e)))) (\<lambda>s2.
           shade4_color F (colorspace shade) s2 (sp_c (sp e)))))"

fun shade4_loop ::
  "externals \<Rightarrow> 'd fpu \<Rightarrow> ('d, 'd ShadingElement) Shading \<Rightarrow> 'd ShadingElement list \<Rightarrow> string \<Rightarrow> string rvoe" where
  "shade4_loop X F shade [] s = Ok s"
| "shade4_loop X F shade (e # es) s =
     (case shade4_element X F shade s e of
        Ok s' \<Rightarrow> shade4_loop X F shade es s'
      | Err err \<Rightarrow> Err err
      | Aborted \<Rightarrow> Aborted)"

definition serialize_shade4 ::
  "externals \<Rightarrow> 'd fpu \<Rightarrow> ('d, 'd ShadingElement) Shading \<Rightarrow> string rvoe" where
  "serialize_shade4 X F shade = shade4_loop X F shade (elements shade) []"

text \<open>The loop over the control points of a patch.\<close>

fun shade6_points :: "'d fpu \<Rightarrow> ('d, 'e) Shading \<Rightarrow> 'd Point list \<Rightarrow> string \<Rightarrow> string rvoe" where
  "shade6_points F shade [] s = Ok s"
| "shade6_points F shade (p # ps) s =
     (case append_floatvalue32 F s (xratio_of F shade p) of
        Ok s1 \<Rightarrow> (case append_floatvalue32 F s1 (yratio_of F shade p) of
                    Ok s2 \<Rightarrow> shade6_points F shade ps s2
                  | Err err \<Rightarrow> Err err
                  | Aborted \<Rightarrow> Aborted)
      | Err err \<Rightarrow> Err err
      | Aborted \<Rightarrow> Aborted)"

text \<open>
  The colour of a patch corner: here the colourspace of the shade is asked
  first, then the alternative of the colour.
\<close>

fun shade6_color :: "'d fpu \<Rightarrow> CapyPDF_Colorspace \<Rightarrow> string \<Rightarrow> 'd Color \<Rightarrow> string rvoe" where
  "shade6_color F CAPY_CS_DEVICE_RGB s colorobj =
     (case colorobj of
        DeviceRGBColor cr cg cb \<Rightarrow>
          ERC (append_floatvalue16 F s cr) (\<lambda>s1.
          ERC (append_floatvalue16 F s1 cg) (\<lambda>s2.
          append_floatvalue16 F s2 cb))
      | _ \<Rightarrow> Err ColorspaceMismatch)"
| "shade6_color F CAPY_CS_DEVICE_GRAY s colorobj =
     (case colorobj of
        DeviceGrayColor cv \<Rightarrow> append_floatvalue16 F s cv
      | _ \<Rightarrow> Err ColorspaceMismatch)"
| "shade6_color F CAPY_CS_DEVICE_CMYK s colorobj =
     (case colorobj of
        DeviceCMYKColor cc cm' cy ck \<Rightarrow>
          ERC (append_floatvalue16 F s cc) (\<lambda>s1.
          ERC (append_floatvalue16 F s1 cm') (\<lambda>s2.
          ERC (append_floatvalue16 F s2 cy) (\<lambda>s3.
          append_floatvalue16 F s3 ck)))
      | _ \<Rightarrow> Err ColorspaceMismatch)"

fun shade6_colors :: "'d fpu \<Rightarrow> CapyPDF_Colorspace \<Rightarrow> 'd Color list \<Rightarrow> string \<Rightarrow> string rvoe" where
  "shade6_colors F cs [] s = Ok s"
| "shade6_colors F cs (colorobj # rest) s =
     (case shade6_color F cs s colorobj of
        Ok s' \<Rightarrow> shade6_colors F cs rest s'
      | Err err \<Rightarrow> Err err
      | Aborted \<Rightarrow> Aborted)"

text \<open>
  One round of the loop of \<open>serialize_shade6\<close>: a patch that is not a full
  patch aborts; the flag byte written is always 0.
\<close>

fun shade6_element :: "'d fpu \<Rightarrow> ('d, 'd CoonsPatches) Shading \<Rightarrow> string \<Rightarrow> 'd CoonsPatches \<Rightarrow> string rvoe" where
  "shade6_element F shade s (FullCoonsPatch ps cs) =
     ERC (shade6_points F shade ps (s @ [char_of (0::nat)])) (\<lambda>s1.
     shade6_colors F (colorspace shade) cs s1)"
| "shade6_element F shade s (ContinuationCoonsPatch fl ps cs) = Aborted"

fun shade6_loop ::
  "'d fpu \<Rightarrow> ('d, 'd CoonsPatches) Shading \<Rightarrow> 'd CoonsPatches list \<Rightarrow> string \<Rightarrow> string rvoe" where
  "shade6_loop F shade [] s = Ok s"
| "shade6_loop F shade (eh # rest) s =
     (case shade6_element F shade s eh of
        Ok s' \<Rightarrow> shade6_loop F shade rest s'
      | Err err \<Rightarrow> Err err
      | Aborted \<Rightarrow> Aborted)"

definition serialize_shade6 :: "'d fpu \<Rightarrow> ('d, 'd CoonsPatches) Shading \<Rightarrow> string rvoe" where
  "serialize_shade6 F shade = shade6_loop F shade (elements shade) []"

text \<open>
  The dictionary that both \<open>add_shading\<close> overloads write, for the shading
  type and the length of the serialized stream.
\<close>

definition shading_dict :: "'d fpu \<Rightarrow> nat \<Rightarrow> ('d, 'e) Shading \<Rightarrow> nat \<Rightarrow> string" where
  "shading_dict F shadingtype shade len =
     ''<<'' @ nl
     @ ''  /ShadingType '' @ fmt_nat shadingtype @ nl
     @ ''  /ColorSpace '' @ colorspace_names (colorspace shade) @ nl
     @ ''  /BitsPerCoordinate 32'' @ nl
     @ ''  /BitsPerComponent 16'' @ nl
     @ ''  /BitsPerFlag 8'' @ nl
     @ ''  /Length '' @ fmt_nat len @ nl
     @ ''  /Decode ['' @ nl
     @ ''    '' @ fp_fmt_f F (minx shade) @ '' '' @ fp_fmt_f F (maxx shade) @ nl
     @ ''    '' @ fp_fmt_f F (miny shade) @ '' '' @ fp_fmt_f F (maxy shade) @ nl
     @ (case colorspace shade of
          CAPY_CS_DEVICE_RGB \<Rightarrow> ''    0 1'' @ nl @ ''    0 1'' @ nl @ ''    0 1'' @ nl
        | CAPY_CS_DEVICE_GRAY \<Rightarrow> ''  0 1'' @ nl
        | CAPY_CS_DEVICE_CMYK \<Rightarrow>
            ''    0 1'' @ nl @ ''    0 1'' @ nl @ ''    0 1'' @ nl @ ''    0 1'' @ nl)
     @ ''  ]'' @ nl @ ''>>'' @ nl"

definition add_shading4 ::
  "externals \<Rightarrow> 'd fpu \<Rightarrow> PdfDocument \<Rightarrow> ('d, 'd ShadingElement) Shading \<Rightarrow> int rvoe \<times> PdfDocument" where
  "add_shading4 X F d shade =
     (case serialize_shade4 X F shade of
        Ok serialized \<Rightarrow>
          (let (n, d') = add_object d
                           (FullPDFObject (shading_dict F 4 shade (length serialized)) serialized)
           in (Ok n, d'))
      | Err err \<Rightarrow> (Err err, d)
      | Aborted \<Rightarrow> (Aborted, d))"

definition add_shading6 ::
  "'d fpu \<Rightarrow> PdfDocument \<Rightarrow> ('d, 'd CoonsPatches) Shading \<Rightarrow> int rvoe \<times> PdfDocument" where
  "add_shading6 F d shade =
     (case serialize_shade6 F shade of
        Ok serialized \<Rightarrow>
          (let (n, d') = add_object d
                           (FullPDFObject (shading_dict F 6 shade (length serialized)) serialized)
           in (Ok n, d'))
      | Err err \<Rightarrow> (Err err, d)
      | Aborted \<Rightarrow> (Aborted, d))"

section \<open>Patterns and transparency groups\<close>

datatype DCSerialization =
    SerializedBasicContext string string string
  | SerializedXObject string string

typedecl TransparencyGroupExtra

definition get_w :: "'d fpu \<Rightarrow> 'd PdfDrawContext \<Rightarrow> 'd" where
  "get_w F ctx = fp_sub F (x2 (bbox ctx)) (x1 (bbox ctx))"

definition get_h :: "'d fpu \<Rightarrow> 'd PdfDrawContext \<Rightarrow> 'd" where
  "get_h F ctx = fp_sub F (y2 (bbox ctx)) (y1 (bbox ctx))"

text \<open>
  \<open>add_pattern\<close>. \<open>this\<close> is the address of the document the method is called
  on, and \<open>&ctx.get_doc() != this\<close> compares it with the pointer kept in the
  context. \<open>build_resource_dict\<close> is the context's method of that name, whose
  body is in another file.
\<close>

definition add_pattern ::
  "'d fpu \<Rightarrow> ('d PdfDrawContext \<Rightarrow> string) \<Rightarrow> nat \<Rightarrow> PdfDocument \<Rightarrow> 'd PdfDrawContext \<Rightarrow>
   int rvoe \<times> PdfDocument" where
  "add_pattern F build_resource_dict this d ctx =
     (if doc ctx \<noteq> this then (Err IncorrectDocumentForObject, d)
      else if context_type ctx \<noteq> CAPY_DC_COLOR_TILING then (Err InvalidDrawContextType, d)
      else if marked_depth ctx \<noteq> 0 then (Err UnclosedMarkedContent, d)
      else
        (let resources = build_resource_dict ctx;
             pattern_dict =
               ''<<'' @ nl
               @ ''  /Type /Pattern'' @ nl
               @ ''  /PatternType 1'' @ nl
               @ ''  /PaintType 1'' @ nl
               @ ''  /TilingType 1'' @ nl
               @ ''  /BBox [ 0.000000 0.000000 '' @ fp_fmt_f F (get_w F ctx) @ '' ''
               @ fp_fmt_f F (get_h F ctx) @ '' ]'' @ nl
               @ ''  /XStep '' @ fp_fmt_f F (get_w F ctx) @ nl
               @ ''  /YStep '' @ fp_fmt_f F (get_h F ctx) @ nl
               @ ''  /Resources '' @ resources @ nl
               @ ''  /Length '' @ fmt_nat (length (commands ctx)) @ nl
               @ ''>>'' @ nl;
             (n, d') = add_object d (FullPDFObject pattern_dict (commands ctx))
         in (Ok n, d')))"

text \<open>
  \<open>add_transparency_group\<close>. \<open>serialize\<close> is the context's method of that
  name; \<open>std::get<SerializedXObject>\<close> throws on the other alternative. The
  function never reads \<open>this\<close>: it has no comparison with the context's
  document.
\<close>

definition add_transparency_group ::
  "('d PdfDrawContext \<Rightarrow> TransparencyGroupExtra option \<Rightarrow> DCSerialization) \<Rightarrow> nat \<Rightarrow>
   PdfDocument \<Rightarrow> 'd PdfDrawContext \<Rightarrow> TransparencyGroupExtra option \<Rightarrow> int rvoe \<times> PdfDocument" where
  "add_transparency_group serialize this d ctx ex =
     (if context_type ctx \<noteq> CAPY_DC_TRANSPARENCY_GROUP then (Err InvalidDrawContextType, d)
      else if marked_depth ctx \<noteq> 0 then (Err UnclosedMarkedContent, d)
      else
        (case serialize ctx ex of
           SerializedXObject dict command_stream \<Rightarrow>
             (let (objid, d1) = add_object d (FullPDFObject dict command_stream);
                  d2 = d1\<lparr>transparency_groups := transparency_groups d1 @ [objid]\<rparr>
              in (Ok (i32 (length (transparency_groups d2)) - 1), d2))
         | SerializedBasicContext resource_dict unclosed_object_dict command_stream \<Rightarrow>
             (Aborted, d)))"

section \<open>Images\<close>

datatype CapyPDF_Image_Interpolation =
  CAPY_INTERPOLATION_AUTO | CAPY_INTERPOLATION_PIXELATED | CAPY_INTERPOLATION_SMOOTH

datatype ColorspaceType = DeviceCS CapyPDF_Colorspace | IccCS int

record ImageMetadata =
  md_w :: int
  md_h :: int
  pixel_depth :: int
  alpha_depth :: int
  interp :: CapyPDF_Image_Interpolation
  md_cs :: CapyPDF_Colorspace

record RasterImage =
  md :: ImageMetadata
  pixels :: string
  alpha :: string
  icc_profile :: string

definition add_image_object ::
  "externals \<Rightarrow> PdfDocument \<Rightarrow> int \<Rightarrow> int \<Rightarrow> int \<Rightarrow> CapyPDF_Image_Interpolation \<Rightarrow>
   ColorspaceType \<Rightarrow> int option \<Rightarrow> bool \<Rightarrow> string \<Rightarrow> int rvoe \<times> PdfDocument" where
  "add_image_object X d w h bits_per_component interpolate cspace smask_id is_mask
     uncompressed_bytes =
     (case flate_compress X uncompressed_bytes of
        Aborted \<Rightarrow> (Aborted, d)
      | Err e \<Rightarrow> (Err e, d)
      | Ok compressed \<Rightarrow>
          (let head = ''<<'' @ nl
                      @ ''  /Type /XObject'' @ nl
                      @ ''  /Subtype /Image'' @ nl
                      @ ''  /Width '' @ fmt_int w @ nl
                      @ ''  /Height '' @ fmt_int h @ nl
                      @ ''  /BitsPerComponent '' @ fmt_int bits_per_component @ nl
                      @ ''  /Length '' @ fmt_nat (length compressed) @ nl
                      @ ''  /Filter /FlateDecode'' @ nl
                      @ (case interpolate of
                           CAPY_INTERPOLATION_PIXELATED \<Rightarrow> ''  /Interpolate false'' @ nl
                         | CAPY_INTERPOLATION_SMOOTH \<Rightarrow> ''  /Interpolate true'' @ nl
                         | CAPY_INTERPOLATION_AUTO \<Rightarrow> []);
               cs_line = (if is_mask then Ok (''  /ImageMask true'' @ nl)
                          else (case cspace of
                                  DeviceCS cs \<Rightarrow> Ok (''  /ColorSpace '' @ colorspace_names cs @ nl)
                                | IccCS icc \<Rightarrow>
                                    if icc < 0 \<or> length (icc_profiles d) \<le> nat icc then Aborted
                                    else Ok (''  /ColorSpace ''
                                             @ fmt_int (object_num (icc_profiles d ! nat icc))
                                             @ '' 0 R'' @ nl)))
           in case cs_line of
                Aborted \<Rightarrow> (Aborted, d)
              | Err e \<Rightarrow> (Err e, d)
              | Ok line \<Rightarrow>
                  (let buf = head @ line
                             @ (case smask_id of
                                  Some m \<Rightarrow> ''  /SMask '' @ fmt_int m @ '' 0 R'' @ nl
                                | None \<Rightarrow> [])
                             @ ''>>'' @ nl;
                       (im_id, d1) = add_object d (FullPDFObject buf compressed);
                       d2 = d1\<lparr>image_info := image_info d1 @
                               [\<lparr>im_w = w, im_h = h, im_obj = im_id\<rparr>]\<rparr>
                   in (Ok (i32 (length (image_info d2)) - 1), d2))))"

text \<open>
  \<open>add_image\<close>, after the soft mask: an image with an embedded profile goes
  to \<open>store_icc_profile\<close> directly, without asking \<open>find_icc_profile\<close>.
\<close>

definition add_image_main ::
  "externals \<Rightarrow> PdfDocument \<Rightarrow> RasterImage \<Rightarrow> bool \<Rightarrow> int option \<Rightarrow> int rvoe \<times> PdfDocument" where
  "add_image_main X d img is_mask smask_id =
     (let m = md img;
          plain = add_image_object X d (md_w m) (md_h m) (pixel_depth m) (interp m)
                    (DeviceCS (md_cs m)) smask_id is_mask (pixels img)
      in if icc_profile img \<noteq> [] then
           (case store_icc_profile X d (icc_profile img) (num_channels_for (md_cs m)) of
              (Aborted, d1) \<Rightarrow> (Aborted, d1)
            | (Err e, d1) \<Rightarrow> (Err e, d1)
            | (Ok icc_id, d1) \<Rightarrow>
                add_image_object X d1 (md_w m) (md_h m) (pixel_depth m) (interp m)
                  (IccCS icc_id) smask_id is_mask (pixels img))
         else if md_cs m = CAPY_CS_DEVICE_GRAY then plain
         else (case output_colorspace (opts d) of
                 CAPY_CS_DEVICE_RGB \<Rightarrow> plain
               | CAPY_CS_DEVICE_GRAY \<Rightarrow> plain
               | CAPY_CS_DEVICE_CMYK \<Rightarrow>
                   if get_cmyk (cm d) = [] then (Err NoCmykProfile, d)
                   else if md_cs m \<noteq> CAPY_CS_DEVICE_CMYK then (Err UnsupportedFormat, d)
                   else plain))"

definition add_image ::
  "externals \<Rightarrow> PdfDocument \<Rightarrow> RasterImage \<Rightarrow> bool \<Rightarrow> int rvoe \<times> PdfDocument" where
  "add_image X d img is_mask =
     (if md_w (md img) \<le> 0 \<or> md_h (md img) \<le> 0 then (Err InvalidImageSize, d)
      else if pixels img = [] then (Err MissingPixels, d)
      else if is_mask \<and> alpha img \<noteq> [] then (Err MaskAndAlpha, d)
      else if alpha img \<noteq> [] then
        (case add_image_object X d (md_w (md img)) (md_h (md img)) (alpha_depth (md img))
                (interp (md img)) (DeviceCS CAPY_CS_DEVICE_GRAY) None False (alpha img) of
           (Aborted, d1) \<Rightarrow> (Aborted, d1)
         | (Err e, d1) \<Rightarrow> (Err e, d1)
         | (Ok imobj, d1) \<Rightarrow>
             if imobj < 0 \<or> length (image_info d1) \<le> nat imobj then (Aborted, d1)
             else add_image_main X d1 img is_mask (Some (im_obj (image_info d1 ! nat imobj))))
      else add_image_main X d img is_mask None)"

section \<open>Font subsets\<close>

text \<open>
  Modelled from the spec: the lookup of a codepoint in the subsets of a
  \<open>FontSubsetter\<close> (the class is not among the sources). Section 4.4: each
  subset has a reverse map from codepoint to local index; \<open>find_glyph\<close> is
  the slot \<open>(subset_index, local_glyph_id)\<close> of a codepoint, looked for in
  the subsets in their order from index \<open>k\<close> on.
\<close>

fun glyph_index :: "nat list \<Rightarrow> nat \<Rightarrow> nat \<Rightarrow> nat option" where
  "glyph_index [] codepoint i = None"
| "glyph_index (g # gs) codepoint i =
     (if g = codepoint then Some i else glyph_index gs codepoint (Suc i))"

fun find_glyph :: "FontSubsetter \<Rightarrow> nat \<Rightarrow> nat \<Rightarrow> (nat \<times> nat) option" where
  "find_glyph [] codepoint k = None"
| "find_glyph (sub # subs) codepoint k =
     (case glyph_index sub codepoint 0 of
        Some i \<Rightarrow> Some (k, i)
      | None \<Rightarrow> find_glyph subs codepoint (Suc k))"

text \<open>
  Modelled from the spec: \<open>FontSubsetter::unchecked_insert_glyph_to_last_subset\<close>.
  Section 4.4: it bypasses the lookup and appends the codepoint to the last
  subset.
\<close>

definition unchecked_insert_glyph_to_last_subset ::
  "FontSubsetter \<Rightarrow> nat \<Rightarrow> (nat \<times> nat) \<times> FontSubsetter" where
  "unchecked_insert_glyph_to_last_subset subsets codepoint =
     ((length subsets - 1, length (last subsets)),
      butlast subsets @ [last subsets @ [codepoint]])"

text \<open>
  Modelled from the spec: \<open>FontSubsetter::get_glyph_subset\<close>. Section 4.4: if
  the codepoint already has a slot in any subset, return it; otherwise, if the
  last subset has a free slot (fewer than 256 entries), append there; otherwise
  open a new subset and append.
\<close>

definition get_glyph_subset :: "FontSubsetter \<Rightarrow> nat \<Rightarrow> (nat \<times> nat) \<times> FontSubsetter" where
  "get_glyph_subset subsets codepoint =
     (case find_glyph subsets codepoint 0 of
        Some slot \<Rightarrow> (slot, subsets)
      | None \<Rightarrow>
          if length (last subsets) < 256
          then unchecked_insert_glyph_to_last_subset subsets codepoint
          else ((length subsets, 0), subsets @ [[codepoint]]))"

text \<open>
  \<open>pad_subset_fonts\<close> (from the source). The inner loop, from counter \<open>i\<close> on:
  \<open>Some\<close> is \<open>padding_succeeded\<close> with the subsetter as the loop leaves it,
  \<open>None\<close> is the loop running out at \<open>max_count = 100\<close>.
\<close>

function pad_loop :: "FontSubsetter \<Rightarrow> nat \<Rightarrow> nat \<Rightarrow> FontSubsetter option" where
  "pad_loop subsetter subset_id i =
     (if i < 100 then
        (if length (subsetter ! subset_id) = 32 then Some subsetter
         else pad_loop (snd (get_glyph_subset subsetter (33 + i))) subset_id (Suc i))
      else None)"
  by pat_completeness auto
termination
  by (relation "measure (\<lambda>(subsetter, subset_id, i). 100 - i)") auto

declare pad_loop.simps [simp del]

text \<open>
  The body of the loop over the fonts. An empty subsetter fails the first
  assertion (and without it \<open>get_subset\<close> is asked for subset
  \<open>size_t(0) - 1\<close>). The last assertion is checked unless compiled out.
\<close>

definition pad_font :: "externals \<Rightarrow> FontSubsetter \<Rightarrow> FontSubsetter rvoe" where
  "pad_font X subsetter =
     (if subsetter = [] then Aborted
      else
        (let subset_id = length subsetter - 1
         in if length (subsetter ! subset_id) > 32 then Ok subsetter
            else (case pad_loop subsetter subset_id 0 of
                    None \<Rightarrow> Aborted
                  | Some padded \<Rightarrow>
                      (let final = snd (unchecked_insert_glyph_to_last_subset padded 32)
                       in if \<not> ndebug X \<and> length (final ! subset_id) \<noteq> 33 then Aborted
                          else Ok final))))"

fun pad_fonts_loop :: "externals \<Rightarrow> FontSubsetter list \<Rightarrow> FontSubsetter list rvoe" where
  "pad_fonts_loop X [] = Ok []"
| "pad_fonts_loop X (sf # rest) =
     (case pad_font X sf of
        Ok sf' \<Rightarrow> (case pad_fonts_loop X rest of
                     Ok rest' \<Rightarrow> Ok (sf' # rest')
                   | Err e \<Rightarrow> Err e
                   | Aborted \<Rightarrow> Aborted)
      | Err e \<Rightarrow> Err e
      | Aborted \<Rightarrow> Aborted)"

definition pad_subset_fonts :: "externals \<Rightarrow> PdfDocument \<Rightarrow> unit rvoe \<times> PdfDocument" where
  "pad_subset_fonts X d =
     (case pad_fonts_loop X (fonts d) of
        Ok fs \<Rightarrow> (Ok (), d\<lparr>fonts := fs\<rparr>)
      | Err e \<Rightarrow> (Err e, d)
      | Aborted \<Rightarrow> (Aborted, d))"

text \<open>
  The glyphs of a subset as \<open>pad_subset_until_space\<close> sees them: the
  alternative \<open>RegularGlyph\<close> with its \<open>unicode_codepoint\<close>, and the other
  alternatives of the variant \<open>TTGlyphs\<close>, which the function does not read.
\<close>

datatype TTGlyphs = RegularGlyph nat | OtherGlyph

text \<open>
  \<open>pad_subset_until_space\<close> (from the source), the second padding routine of
  the document. Its loop looks for the candidate among the glyphs of the subset
  it pads, and appends the candidate when it is not there.
\<close>

function pad_until_loop :: "TTGlyphs list \<Rightarrow> nat \<Rightarrow> TTGlyphs list option" where
  "pad_until_loop subset_glyphs i =
     (if i < 100 then
        (if length subset_glyphs = 32 then Some subset_glyphs
         else if RegularGlyph (33 + i) \<in> set subset_glyphs
              then pad_until_loop subset_glyphs (Suc i)
              else pad_until_loop (subset_glyphs @ [RegularGlyph (33 + i)]) (Suc i))
      else None)"
  by pat_completeness auto
termination
  by (relation "measure (\<lambda>(subset_glyphs, i). 100 - i)") auto

declare pad_until_loop.simps [simp del]

definition pad_subset_until_space :: "externals \<Rightarrow> TTGlyphs list \<Rightarrow> TTGlyphs list rvoe" where
  "pad_subset_until_space X subset_glyphs =
     (if length subset_glyphs > 32 then Ok subset_glyphs
      else (case pad_until_loop subset_glyphs 0 of
              None \<Rightarrow> Aborted
            | Some padded \<Rightarrow>
                (let final = padded @ [RegularGlyph 32]
                 in if \<not> ndebug X \<and> length final \<noteq> 33 then Aborted else Ok final)))"

section \<open>Sample values\<close>

text \<open>
  Concrete values on which the theorems below are run. \<open>real_fpu\<close> reads
  \<open>double\<close> as a real number: exact on the small integers used here.
\<close>

definition be_bytes :: "nat \<Rightarrow> nat \<Rightarrow> string" where
  "be_bytes n k = map (\<lambda>i. char_of (k div 256 ^ (n - 1 - i))) [0..<n]"

definition real_fpu :: "real fpu" where
  "real_fpu =
     \<lparr>fp_sub = (\<lambda>a b. a - b), fp_div = (\<lambda>a b. a / b),
      fp_out_of_unit = (\<lambda>v. v < 0 \<or> v > 1), fp_one = 1,
      fp_be32 = (\<lambda>v. be_bytes 4 (nat \<lfloor>4294967295 * v\<rfloor>)),
      fp_be16 = (\<lambda>v. be_bytes 2 (nat \<lfloor>65535 * v\<rfloor>)),
      fp_fmt = (\<lambda>v. fmt_int \<lfloor>v\<rfloor>),
      fp_fmt_f = (\<lambda>v. fmt_int \<lfloor>v\<rfloor> @ ''.000000'')\<rparr>"

definition sample_externals :: externals where
  "sample_externals =
     \<lparr>ndebug = False,
      utf8_to_pdfmetastr = (\<lambda>t. ''('' @ t @ '')''),
      pdfstring_quote = (\<lambda>t. ''('' @ t @ '')''),
      current_date_string = (\<lambda>k. ''(D:20240101000000Z)''),
      version_str = ''0.0'',
      load_file = (\<lambda>fname. Ok fname),
      get_num_channels = (\<lambda>t. Ok 3),
      flate_compress = (\<lambda>t. Ok t),
      ocg_object_number = (\<lambda>i. None),
      serialize_trans = (\<lambda>t indent. [])\<rparr>"

definition sample_opts :: PdfGenerationData where
  "sample_opts =
     \<lparr>title = [], author = [], creator = [], lang = [],
      output_colorspace = CAPY_CS_DEVICE_RGB, compress_streams = False,
      subtype = None, intent_condition_identifier = [], is_tagged = False\<rparr>"

definition sample_cm :: PdfColorConverter where
  "sample_cm = \<lparr>get_rgb = [], get_gray = [], get_cmyk = []\<rparr>"

text \<open>A document as \<open>init\<close> leaves it for \<open>sample_opts\<close>, with the texts left empty.\<close>

definition sample_doc :: PdfDocument where
  "sample_doc =
     (new_document sample_opts sample_cm)
       \<lparr>document_objects := [DummyIndexZero, FullPDFObject [] [], FullPDFObject [] [], DelayedPages],
        page_group_object := 2, pages_object := 3\<rparr>"

text \<open>
  A type 4 shading in DeviceRGB over the unit square whose only vertex lies
  outside the square and carries a gray colour; the same with the vertex inside.
\<close>

definition sample_shade4 :: "real \<Rightarrow> (real, real ShadingElement) Shading" where
  "sample_shade4 x =
     \<lparr>elements = [\<lparr>sp = \<lparr>sp_p = \<lparr>px = x, py = 0\<rparr>, sp_c = DeviceGrayColor 0\<rparr>, flag = 0\<rparr>],
      minx = 0, miny = 0, maxx = 1, maxy = 1, colorspace = CAPY_CS_DEVICE_RGB\<rparr>"

text \<open>
  A type 6 shading in DeviceRGB with one full patch (12 control points, 4 corner
  colours, the third of them gray), and one with a continuation patch.
\<close>

definition sample_shade6 :: "(real, real CoonsPatches) Shading" where
  "sample_shade6 =
     \<lparr>elements = [FullCoonsPatch (replicate 12 \<lparr>px = 0, py = 1\<rparr>)
                    [DeviceRGBColor 0 0 0, DeviceRGBColor 1 0 0, DeviceGrayColor 0,
                     DeviceRGBColor 0 0 1]],
      minx = 0, miny = 0, maxx = 1, maxy = 1, colorspace = CAPY_CS_DEVICE_RGB\<rparr>"

definition sample_shade6_continuation :: "(real, real CoonsPatches) Shading" where
  "sample_shade6_continuation =
     \<lparr>elements = [FullCoonsPatch (replicate 12 \<lparr>px = 0, py = 1\<rparr>)
                    (replicate 4 (DeviceRGBColor 0 0 0)),
                  ContinuationCoonsPatch 1 (replicate 8 \<lparr>px = 0, py = 1\<rparr>)
                    (replicate 2 (DeviceRGBColor 0 0 0))],
      minx = 0, miny = 0, maxx = 1, maxy = 1, colorspace = CAPY_CS_DEVICE_RGB\<rparr>"

text \<open>
  A transparency group context that was created for the document at address 2,
  and a \<open>serialize\<close> that wraps the command buffer.
\<close>

definition sample_group_ctx :: "real PdfDrawContext" where
  "sample_group_ctx =
     \<lparr>doc = 2, context_type = CAPY_DC_TRANSPARENCY_GROUP, commands = ''n'',
      dstate_stack = [], bbox = \<lparr>x1 = 0, y1 = 0, x2 = 10, y2 = 10\<rparr>,
      marked_depth = 0, ind = []\<rparr>"

definition sample_serialize ::
  "real PdfDrawContext \<Rightarrow> TransparencyGroupExtra option \<Rightarrow> DCSerialization" where
  "sample_serialize ctx ex = SerializedXObject ''<< /Type /XObject >>'' (commands ctx)"

text \<open>An RGB image of one pixel with an embedded profile.\<close>

definition sample_image :: RasterImage where
  "sample_image =
     \<lparr>md = \<lparr>md_w = 1, md_h = 1, pixel_depth = 8, alpha_depth = 8,
             interp = CAPY_INTERPOLATION_AUTO, md_cs = CAPY_CS_DEVICE_RGB\<rparr>,
      pixels = ''abc'', alpha = [], icc_profile = ''ICC''\<rparr>"

text \<open>The sample document after the profile \<open>ICC\<close> was loaded into it.\<close>

definition sample_icc_doc :: PdfDocument where
  "sample_icc_doc = snd (load_icc_file sample_externals sample_doc ''ICC'')"

text \<open>
  A font with a full first subset that holds the codepoints 33 to 288, and a
  second subset with one glyph; a font with one subset of three glyphs; and a
  font with one subset of 40 glyphs.
\<close>

definition sample_full_font :: FontSubsetter where
  "sample_full_font = [[33 ..< 289], [1000]]"

definition sample_small_font :: FontSubsetter where
  "sample_small_font = [[72, 105, 33]]"

definition sample_big_font :: FontSubsetter where
  "sample_big_font = [[65 ..< 105]]"


section \<open>Vocabulary of the proofs\<close>

text \<open>\<open>extends d d'\<close>: the object table of \<open>d'\<close> is that of \<open>d\<close> with entries appended.\<close>

definition extends :: "PdfDocument \<Rightarrow> PdfDocument \<Rightarrow> bool" where
  "extends d d' = (\<exists>ys. document_objects d' = document_objects d @ ys)"

text \<open>A run of \<open>add_object\<close> calls, one per object of the list.\<close>

definition add_objects :: "PdfDocument \<Rightarrow> ObjectType list \<Rightarrow> PdfDocument" where
  "add_objects d obs = foldl (\<lambda>s ob. snd (add_object s ob)) d obs"

text \<open>The page objects of the table, in the order of their numbers.\<close>

fun page_of :: "ObjectType \<Rightarrow> DelayedPage option" where
  "page_of (DelayedPageObject p) = Some p"
| "page_of other = None"

definition page_objects :: "PdfDocument \<Rightarrow> DelayedPage list" where
  "page_objects d = List.map_filter page_of (document_objects d)"

text \<open>
  What a document records about the use of widgets, annotations and structure
  items: its page objects, the three usage tables and the parent tree entries
  (one list of structure items per page that has any).
\<close>

definition usage ::
  "PdfDocument \<Rightarrow>
   DelayedPage list \<times> (int \<rightharpoonup> int) \<times> (int \<rightharpoonup> int) \<times> (int \<rightharpoonup> StructureUsage) \<times> int list list" where
  "usage d =
     (page_objects d, form_use d, annotation_use d, structure_use d,
      structure_parent_tree_items d)"

text \<open>
  The pages a widget, an annotation or a structure item is attached to: the page
  objects that list it, and for a structure item the parent tree entries that
  list it.
\<close>

definition widget_pages :: "PdfDocument \<Rightarrow> int \<Rightarrow> DelayedPage list" where
  "widget_pages d a = filter (\<lambda>p. a \<in> set (used_form_widgets p)) (page_objects d)"

definition annotation_pages :: "PdfDocument \<Rightarrow> int \<Rightarrow> DelayedPage list" where
  "annotation_pages d a = filter (\<lambda>p. a \<in> set (used_annotations p)) (page_objects d)"

definition structure_pages :: "PdfDocument \<Rightarrow> int \<Rightarrow> int list list" where
  "structure_pages d s = filter (\<lambda>ss. s \<in> set ss) (structure_parent_tree_items d)"

text \<open>A document that has no page yet and records no use, as \<open>construct\<close> returns it.\<close>

definition no_pages_yet :: "PdfDocument \<Rightarrow> bool" where
  "no_pages_yet d =
     (page_objects d = [] \<and> form_use d = Map.empty \<and> annotation_use d = Map.empty
      \<and> structure_use d = Map.empty \<and> structure_parent_tree_items d = [])"

text \<open>The arguments of one \<open>add_page\<close> call, and a run of such calls on a document.\<close>

record page_call =
  pc_resource_dict :: string
  pc_unclosed_object_dict :: string
  pc_command_stream :: string
  pc_props :: PageProperties
  pc_fws :: "int list"
  pc_annots :: "int list"
  pc_structs :: "int list"
  pc_transition :: "Transition option"
  pc_subnav :: "SubPageNavigation list"

definition call_add_page :: "externals \<Rightarrow> PdfDocument \<Rightarrow> page_call \<Rightarrow> unit rvoe \<times> PdfDocument" where
  "call_add_page X d c =
     add_page X d (pc_resource_dict c) (pc_unclosed_object_dict c) (pc_command_stream c)
       (pc_props c) (pc_fws c) (pc_annots c) (pc_structs c) (pc_transition c) (pc_subnav c)"

text \<open>
  The document after the calls of the list, one after the other; a call that
  returns an error leaves the caller with the document as the call left it, and a
  call that aborts ends the run.
\<close>

fun add_pages :: "externals \<Rightarrow> PdfDocument \<Rightarrow> page_call list \<Rightarrow> PdfDocument" where
  "add_pages X d [] = d"
| "add_pages X d (c # cs) =
     (case call_add_page X d c of
        (Aborted, d') \<Rightarrow> d'
      | (r, d') \<Rightarrow> add_pages X d' cs)"

text \<open>
  A page that uses form widget 7 and structure item 9, and a document in which
  widget 7 is recorded as used.
\<close>

definition sample_call :: page_call where
  "sample_call =
     \<lparr>pc_resource_dict = ''<< >>'', pc_unclosed_object_dict = ''<<'', pc_command_stream = ''n'',
      pc_props = undefined, pc_fws = [7], pc_annots = [], pc_structs = [9],
      pc_transition = None, pc_subnav = []\<rparr>"

definition sample_used_doc :: PdfDocument where
  "sample_used_doc = sample_doc\<lparr>form_use := [7 \<mapsto> 6]\<rparr>"

text \<open>
  What a successful \<open>add_page\<close> adds to the record of use: the page object
  \<open>p\<close> with number \<open>n\<close>, and \<open>pg\<close> the index of the page.
\<close>

definition new_page_usage ::
  "PdfDocument \<Rightarrow> int list \<Rightarrow> int list \<Rightarrow> int list \<Rightarrow> DelayedPage \<Rightarrow> int \<Rightarrow> int \<Rightarrow>
   DelayedPage list \<times> (int \<rightharpoonup> int) \<times> (int \<rightharpoonup> int) \<times> (int \<rightharpoonup> StructureUsage) \<times> int list list" where
  "new_page_usage d fws annots structs p n pg =
     (page_objects d @ [p], record_use (form_use d) fws n,
      record_use (annotation_use d) annots n,
      record_structure_use (structure_use d) structs pg 0,
      (if structs \<noteq> [] then structure_parent_tree_items d @ [structs]
       else structure_parent_tree_items d))"

text \<open>
  The usage tables say exactly which items are attached to a page, and no item
  is attached to two pages.
\<close>

definition attached_ok :: "PdfDocument \<Rightarrow> bool" where
  "attached_ok d =
     ((\<forall>a. (form_use d a \<noteq> None) = (widget_pages d a \<noteq> []))
      \<and> (\<forall>a. length (widget_pages d a) \<le> 1)
      \<and> (\<forall>a. (annotation_use d a \<noteq> None) = (annotation_pages d a \<noteq> []))
      \<and> (\<forall>a. length (annotation_pages d a) \<le> 1)
      \<and> (\<forall>s. (structure_use d s \<noteq> None) = (structure_pages d s \<noteq> []))
      \<and> (\<forall>s. length (structure_pages d s) \<le> 1))"

text \<open>The device colourspace that a colour belongs to, if it is a device colour.\<close>

fun device_colorspace :: "'d Color \<Rightarrow> CapyPDF_Colorspace option" where
  "device_colorspace (DeviceRGBColor cr cg cb) = Some CAPY_CS_DEVICE_RGB"
| "device_colorspace (DeviceGrayColor cv) = Some CAPY_CS_DEVICE_GRAY"
| "device_colorspace (DeviceCMYKColor cc cm' cy ck) = Some CAPY_CS_DEVICE_CMYK"
| "device_colorspace other = None"

text \<open>
  A codepoint that has no slot in any subset of the font, and the candidates
  \<open>'!' + j\<close> with \<open>i \<le> j < 99\<close> that have none: the codepoints that the
  padding loop can still insert before its last test of the size, when its
  counter is \<open>i\<close>.
\<close>

definition unused_codepoint :: "FontSubsetter \<Rightarrow> nat \<Rightarrow> bool" where
  "unused_codepoint subsets codepoint = (\<forall>sub \<in> set subsets. codepoint \<notin> set sub)"

definition free_candidates :: "FontSubsetter \<Rightarrow> nat \<Rightarrow> nat list" where
  "free_candidates subsets i = filter (unused_codepoint subsets) [33 + i ..< 132]"

text \<open>
  \<open>can_pad\<close>: the font has a subset, and its last subset either has more than
  32 glyphs or can be filled up to 32 from the free candidates.
  \<open>space_padded s s'\<close>: \<open>s'\<close> is \<open>s\<close> if the last subset of \<open>s\<close> has more
  than 32 glyphs; otherwise \<open>s'\<close> is \<open>s\<close> with the last subset filled up to 32
  glyphs with the first free candidates, that is the codepoints from \<open>'!'\<close>
  on in ascending order that had no slot in the font, and the space after them.
\<close>

definition can_pad :: "FontSubsetter \<Rightarrow> bool" where
  "can_pad s =
     (s \<noteq> [] \<and> (32 < length (last s)
                \<or> 32 - length (last s) \<le> length (free_candidates s 0)))"

definition space_padded :: "FontSubsetter \<Rightarrow> FontSubsetter \<Rightarrow> bool" where
  "space_padded s s' =
     (if 32 < length (last s) then s' = s
      else (32 - length (last s) \<le> length (free_candidates s 0)
            \<and> s' = butlast s @
                   [last s @ take (32 - length (last s)) (free_candidates s 0) @ [32]]))"

section \<open>Nesting rules of the draw context\<close>







lemma dedent_pops:
  assumes "dstate_stack ctx \<noteq> []" "last (dstate_stack ctx) = dtype" "2 \<le> length (ind ctx)"
  shows "dedent ctx dtype
         = (Ok (), ctx\<lparr>dstate_stack := butlast (dstate_stack ctx),
                        ind := butlast (butlast (ind ctx))\<rparr>)"
  using assms by (simp add: dedent_def)



section \<open>Object numbering\<close>

lemma i32_small: "n < 2 ^ 31 \<Longrightarrow> i32 n = int n"
  unfolding i32_def by (simp add: signed_take_bit_int_eq_self)

lemma add_object_objects:
  "document_objects (snd (add_object d ob)) = document_objects d @ [ob]"
  by (simp add: add_object_def)

lemma add_objects_objects:
  "document_objects (add_objects d obs) = document_objects d @ obs"
  unfolding add_objects_def
  by (induction obs arbitrary: d) (simp_all add: add_object_def)

lemma sample_doc_objects:
  "document_objects sample_doc =
     [DummyIndexZero, FullPDFObject [] [], FullPDFObject [] [], DelayedPages]"
  by (simp add: sample_doc_def new_document_def)

lemma extends_refl: "extends d d"
  by (simp add: extends_def)

lemma extends_trans: "extends a b \<Longrightarrow> extends b c \<Longrightarrow> extends a c"
  by (auto simp add: extends_def)

lemma extends_add_object: "extends d (snd (add_object d ob))"
  by (simp add: extends_def add_object_def)

lemma extends_generate_info: "extends d (generate_info_object X d)"
  by (simp add: generate_info_object_def Let_def extends_add_object)

lemma extends_create_separation: "extends d (snd (create_separation F d name fb))"
  by (cases fb)
     (auto simp add: create_separation_def Let_def add_object_def extends_def split: prod.splits)

lemma extends_store_icc: "extends d (snd (store_icc_profile X d contents ch))"
  by (auto simp add: store_icc_profile_def Let_def add_object_def extends_def
           split: prod.splits rvoe.splits)

lemma init_start_objects:
  "\<exists>ys. document_objects (init_start F X d) = document_objects d @ DummyIndexZero # ys"
proof -
  let ?d1 = "d\<lparr>document_objects := document_objects d @ [DummyIndexZero]\<rparr>"
  have a: "extends ?d1 (generate_info_object X ?d1)"
    by (rule extends_generate_info)
  have b: "extends (generate_info_object X ?d1) (init_start F X d)"
    by (simp add: init_start_def Let_def extends_refl extends_create_separation)
  from extends_trans[OF a b] show ?thesis
    by (auto simp add: extends_def)
qed

lemma keep_extends:
  "extends d (snd r) \<Longrightarrow>
   extends d (snd (case r of
                     (Ok iccid, d') \<Rightarrow> (Ok (), d'\<lparr>output_profile := Some iccid\<rparr>)
                   | (Err e, d') \<Rightarrow> (Err e, d')
                   | (Aborted, d') \<Rightarrow> (Aborted, d')))"
  by (cases r; cases "fst r") (auto simp add: extends_def)

lemma extends_init_output_profile: "extends d (snd (init_output_profile X d))"
  by (cases "output_colorspace (opts d)")
     (simp_all add: init_output_profile_def Let_def extends_refl keep_extends extends_store_icc)

lemma extends_init_pages: "extends d (init_pages d)"
  by (auto simp add: init_pages_def create_page_group_def Let_def add_object_def extends_def
           split: prod.splits)

lemma extends_create_output_intent: "extends d (snd (create_output_intent X d))"
  by (auto simp add: create_output_intent_def Let_def add_object_def extends_def
           split: prod.splits option.splits)

lemma extends_init_intent: "extends d (snd (init_intent X d))"
  by (simp add: init_intent_def extends_refl extends_create_output_intent)

lemma extends_init_tail: "extends (init_start F X d) (snd (init F X d))"
proof (cases "init_output_profile X (init_start F X d)")
  case (Pair r d1)
  have e1: "extends (init_start F X d) d1"
    using extends_init_output_profile[of "init_start F X d" X] Pair by simp
  show ?thesis
  proof (cases r)
    case (Ok u)
    have "extends d1 (snd (init_intent X (init_pages d1)))"
      using extends_trans[OF extends_init_pages extends_init_intent] .
    with e1 Pair Ok show ?thesis
      by (auto simp add: init_def intro: extends_trans)
  qed (use e1 Pair in \<open>auto simp add: init_def\<close>)
qed

lemma init_sentinel:
  "document_objects d = [] \<Longrightarrow>
   \<exists>ys. document_objects (snd (init F X d)) = DummyIndexZero # ys"
  using init_start_objects[of F X d] extends_init_tail[of F X d]
  by (auto simp add: extends_def)

text \<open>
  C9, as the code has it. \<open>init\<close>, run on the empty table that the constructor
  leaves, puts the sentinel at index 0 (whatever \<open>init\<close> returns). Every
  \<open>add_object\<close> appends exactly one entry, and no later \<open>add_object\<close> moves
  an entry. The number returned is the size of the table before the call, and the
  object stays at that index, as long as the table has fewer than \<open>2^31\<close>
  entries: the number is the size cast to \<open>int32_t\<close>.
\<close>

theorem object_numbering:
  "(document_objects e = [] \<longrightarrow>
      (\<exists>ys. document_objects (snd (init F X e)) = DummyIndexZero # ys))
   \<and> document_objects (snd (add_object d ob)) = document_objects d @ [ob]
   \<and> take (length (document_objects d))
        (document_objects (add_objects (snd (add_object d ob)) later)) = document_objects d
   \<and> (length (document_objects d) < 2 ^ 31 \<longrightarrow>
        fst (add_object d ob) = int (length (document_objects d))
        \<and> document_objects (add_objects (snd (add_object d ob)) later)
            ! nat (fst (add_object d ob)) = ob)"
proof (intro conjI impI)
  assume "document_objects e = []"
  then show "\<exists>ys. document_objects (snd (init F X e)) = DummyIndexZero # ys"
    by (rule init_sentinel)
next
  show "document_objects (snd (add_object d ob)) = document_objects d @ [ob]"
    by (rule add_object_objects)
next
  show "take (length (document_objects d))
          (document_objects (add_objects (snd (add_object d ob)) later)) = document_objects d"
    by (simp add: add_objects_objects add_object_objects)
next
  assume small: "length (document_objects d) < 2 ^ 31"
  then show num: "fst (add_object d ob) = int (length (document_objects d))"
    by (simp add: add_object_def i32_small)
  show "document_objects (add_objects (snd (add_object d ob)) later)
          ! nat (fst (add_object d ob)) = ob"
    by (simp add: num add_objects_objects add_object_objects nth_append)
qed

theorem object_numbering_witness:
  "document_objects (new_document sample_opts sample_cm) = []
   \<and> length (document_objects sample_doc) < 2 ^ 31
   \<and> (\<exists>ys. document_objects
              (snd (init real_fpu sample_externals (new_document sample_opts sample_cm)))
            = DummyIndexZero # ys)
   \<and> fst (add_object sample_doc (FullPDFObject ''x'' [])) = 4
   \<and> document_objects
        (add_objects (snd (add_object sample_doc (FullPDFObject ''x'' []))) [DelayedPages]) ! 4
      = FullPDFObject ''x'' []"
  using object_numbering[of "new_document sample_opts sample_cm" real_fpu sample_externals
          sample_doc "FullPDFObject ''x'' []" "[DelayedPages]"]
  by (auto simp add: new_document_def sample_doc_objects)

text \<open>
  The claim as written fails where the cast wraps: on a table of \<open>2^31\<close>
  entries \<open>add_object\<close> returns \<open>-2^31\<close>, not the size of the table.
\<close>

theorem object_numbering_counterexample:
  "fst (add_object (add_objects sample_doc (replicate (2 ^ 31 - 4) DelayedPages)) DelayedPages)
     \<noteq> int (length (document_objects
                      (add_objects sample_doc (replicate (2 ^ 31 - 4) DelayedPages))))"
  by (simp add: add_object_def add_objects_objects sample_doc_objects i32_def)

section \<open>Pages: reuse of widgets, annotations and structure items\<close>

lemma usage_add_object:
  "page_of ob = None \<Longrightarrow> usage (snd (add_object d ob)) = usage d"
  by (simp add: usage_def add_object_def page_objects_def List.map_filter_def)

lemma usage_add_navnodes:
  "usage (add_navnodes X first_obj i prev nodes d) = usage d"
  by (induction nodes arbitrary: i prev d) (auto simp add: usage_add_object)

lemma usage_create_subnavigation:
  "usage (snd (create_subnavigation X d subnav)) = usage d"
  by (simp add: create_subnavigation_def Let_def usage_add_navnodes usage_add_object)

lemma create_subnavigation_no_error:
  "fst (create_subnavigation X d subnav) \<noteq> Err e"
  by (simp add: create_subnavigation_def Let_def)

lemma page_objects_add_page_object:
  "page_objects (snd (add_object d (DelayedPageObject p))) = page_objects d @ [p]"
  by (simp add: add_object_def page_objects_def List.map_filter_def)

lemma add_page_body_cases:
  "(fst (add_page_body X d rd uod cs props fws annots structs tr subnav) = Aborted
      \<and> usage (snd (add_page_body X d rd uod cs props fws annots structs tr subnav)) = usage d)
   \<or> (fst (add_page_body X d rd uod cs props fws annots structs tr subnav) = Ok ()
      \<and> (\<exists>p n pg. used_form_widgets p = fws \<and> used_annotations p = annots
            \<and> usage (snd (add_page_body X d rd uod cs props fws annots structs tr subnav))
                = new_page_usage d fws annots structs p n pg))"
proof -
  obtain rn d1 where a1: "add_object d (FullPDFObject rd []) = (rn, d1)" by force
  have u1: "usage d1 = usage d" using usage_add_object[of "FullPDFObject rd []" d] a1 by simp
  obtain cn d2 where a2: "(if compress_streams (opts d1)
              then add_object d1 (DeflatePDFObject uod cs)
              else add_object d1
                     (FullPDFObject
                        (uod @ ''  /Length '' @ fmt_nat (length cs)
                         @ nl @ ''>>'' @ nl) cs)) = (cn, d2)" by force
  have u2: "usage d2 = usage d1"
    using a2 usage_add_object[of "DeflatePDFObject uod cs" d1]
      usage_add_object[of "FullPDFObject (uod @ ''  /Length '' @ fmt_nat (length cs) @ nl @ ''>>'' @ nl) cs" d1]
    by (auto split: if_splits)
  obtain r d3 where a3: "(if subnav \<noteq> [] then create_subnavigation X d2 subnav else (Ok 0, d2)) = (r, d3)"
    by force
  have u3: "usage d3 = usage d2"
    using a3 usage_create_subnavigation[of X d2 subnav] by (auto split: if_splits)
  have r_ne: "r \<noteq> Err e" for e
    using a3 create_subnavigation_no_error[of X d2 subnav e] by (auto split: if_splits)
  have u: "usage d3 = usage d" using u1 u2 u3 by simp
  show ?thesis
  proof (cases r)
    case Aborted
    then show ?thesis using a1 a2 a3 u
      by (simp add: add_page_body_def Let_def)
  next
    case (Err e)
    then show ?thesis using r_ne by simp
  next
    case (Ok root)
    show ?thesis
      using a1 a2 a3 Ok u
      apply (simp add: add_page_body_def Let_def split: prod.splits)
      apply (auto simp add: usage_def new_page_usage_def add_object_def page_objects_def List.map_filter_def)
      done
  qed
qed


lemma record_use_dom: "(record_use m xs n a = None) = (m a = None \<and> a \<notin> set xs)"
  by (induction xs arbitrary: m) auto

lemma record_structure_use_dom:
  "(record_structure_use m xs pg k a = None) = (m a = None \<and> a \<notin> set xs)"
  by (induction xs arbitrary: m k) auto

lemma attached_ok_usage: "usage d' = usage d \<Longrightarrow> attached_ok d' = attached_ok d"
  by (simp add: attached_ok_def usage_def widget_pages_def annotation_pages_def structure_pages_def)

lemma attached_ok_new_page:
  assumes ok: "attached_ok d"
    and u: "usage d' = new_page_usage d fws annots structs p n pg"
    and p: "used_form_widgets p = fws" "used_annotations p = annots"
    and f: "\<not> (\<exists>a \<in> set fws. form_use d a \<noteq> None)"
    and a: "\<not> (\<exists>a \<in> set annots. annotation_use d a \<noteq> None)"
    and s: "\<not> (\<exists>s \<in> set structs. structure_use d s \<noteq> None)"
  shows "attached_ok d'"
proof -
  from u have po: "page_objects d' = page_objects d @ [p]"
    and fu: "form_use d' = record_use (form_use d) fws n"
    and au: "annotation_use d' = record_use (annotation_use d) annots n"
    and su: "structure_use d' = record_structure_use (structure_use d) structs pg 0"
    and sp: "structure_parent_tree_items d' =
              (if structs \<noteq> [] then structure_parent_tree_items d @ [structs]
               else structure_parent_tree_items d)"
    by (simp_all add: usage_def new_page_usage_def)
  have w: "widget_pages d' x = widget_pages d x @ (if x \<in> set fws then [p] else [])" for x
    by (simp add: widget_pages_def po p)
  have an: "annotation_pages d' x = annotation_pages d x @ (if x \<in> set annots then [p] else [])" for x
    by (simp add: annotation_pages_def po p)
  have st: "structure_pages d' x = structure_pages d x @ (if x \<in> set structs then [structs] else [])" for x
    by (auto simp add: structure_pages_def sp)
  from ok have o1: "\<And>x. (form_use d x \<noteq> None) = (widget_pages d x \<noteq> [])"
    and o2: "\<And>x. length (widget_pages d x) \<le> 1"
    and o3: "\<And>x. (annotation_use d x \<noteq> None) = (annotation_pages d x \<noteq> [])"
    and o4: "\<And>x. length (annotation_pages d x) \<le> 1"
    and o5: "\<And>x. (structure_use d x \<noteq> None) = (structure_pages d x \<noteq> [])"
    and o6: "\<And>x. length (structure_pages d x) \<le> 1"
    by (simp_all add: attached_ok_def)
  have c1: "(form_use d' x \<noteq> None) = (widget_pages d' x \<noteq> [])" for x
    using o1[of x] record_use_dom[of "form_use d" fws n x] by (auto simp add: fu w)
  have c2: "length (widget_pages d' x) \<le> 1" for x
    using o1[of x] o2[of x] f by (auto simp add: w)
  have c3: "(annotation_use d' x \<noteq> None) = (annotation_pages d' x \<noteq> [])" for x
    using o3[of x] record_use_dom[of "annotation_use d" annots n x] by (auto simp add: au an)
  have c4: "length (annotation_pages d' x) \<le> 1" for x
    using o3[of x] o4[of x] a by (auto simp add: an)
  have c5: "(structure_use d' x \<noteq> None) = (structure_pages d' x \<noteq> [])" for x
    using o5[of x] record_structure_use_dom[of "structure_use d" structs pg 0 x]
    by (auto simp add: su st)
  have c6: "length (structure_pages d' x) \<le> 1" for x
    using o5[of x] o6[of x] s by (auto simp add: st)
  show ?thesis
    unfolding attached_ok_def using c1 c2 c3 c4 c5 c6 by blast
qed

lemma add_page_error_unchanged:
  "fst (add_page X d rd uod cs props fws annots structs tr subnav) = Err e \<Longrightarrow>
   snd (add_page X d rd uod cs props fws annots structs tr subnav) = d"
  using add_page_body_cases[of X d rd uod cs props fws annots structs tr subnav]
  by (auto simp add: add_page_def split: if_splits)

lemma attached_ok_add_page:
  assumes "attached_ok d"
  shows "attached_ok (snd (add_page X d rd uod cs props fws annots structs tr subnav))"
proof (cases "(\<exists>a \<in> set fws. form_use d a \<noteq> None) \<or> (\<exists>a \<in> set annots. annotation_use d a \<noteq> None)
              \<or> (\<exists>s \<in> set structs. structure_use d s \<noteq> None)")
  case True
  then have "snd (add_page X d rd uod cs props fws annots structs tr subnav) = d"
    by (auto simp add: add_page_def)
  with assms show ?thesis by simp
next
  case False
  then have eq: "add_page X d rd uod cs props fws annots structs tr subnav
                 = add_page_body X d rd uod cs props fws annots structs tr subnav"
    by (simp add: add_page_def)
  from add_page_body_cases[of X d rd uod cs props fws annots structs tr subnav]
  show ?thesis
  proof
    assume "fst (add_page_body X d rd uod cs props fws annots structs tr subnav) = Aborted
      \<and> usage (snd (add_page_body X d rd uod cs props fws annots structs tr subnav)) = usage d"
    then show ?thesis using assms eq attached_ok_usage by metis
  next
    assume "fst (add_page_body X d rd uod cs props fws annots structs tr subnav) = Ok ()
      \<and> (\<exists>p n pg. used_form_widgets p = fws \<and> used_annotations p = annots
            \<and> usage (snd (add_page_body X d rd uod cs props fws annots structs tr subnav))
                = new_page_usage d fws annots structs p n pg)"
    then obtain p n pg where "used_form_widgets p = fws" "used_annotations p = annots"
      "usage (snd (add_page_body X d rd uod cs props fws annots structs tr subnav))
                = new_page_usage d fws annots structs p n pg" by blast
    then show ?thesis
      using attached_ok_new_page[OF assms, of _ fws annots structs p n pg] False eq by auto
  qed
qed

lemma attached_ok_add_pages:
  "attached_ok d \<Longrightarrow> attached_ok (add_pages X d calls)"
proof (induction calls arbitrary: d)
  case Nil
  then show ?case by simp
next
  case (Cons c cs)
  have step: "attached_ok (snd (call_add_page X d c))"
    unfolding call_add_page_def by (rule attached_ok_add_page[OF Cons.prems])
  show ?case
  proof (cases "call_add_page X d c")
    case (Pair r d')
    with step have "attached_ok d'" by simp
    with Pair Cons.IH[of d'] show ?thesis
      by (cases r) simp_all
  qed
qed

lemma no_pages_yet_attached_ok: "no_pages_yet d \<Longrightarrow> attached_ok d"
  by (simp add: no_pages_yet_def attached_ok_def widget_pages_def annotation_pages_def structure_pages_def)

lemma usage_store_icc: "usage (snd (store_icc_profile X d contents ch)) = usage d"
  by (auto simp add: store_icc_profile_def Let_def add_object_def usage_def page_objects_def
        List.map_filter_def split: prod.splits rvoe.splits)

lemma usage_init_start: "usage (init_start F X d) = usage d"
  by (auto simp add: init_start_def generate_info_object_def create_separation_def Let_def
        add_object_def usage_def page_objects_def List.map_filter_def split: prod.splits)

lemma keep_usage:
  "usage (snd r) = usage d \<Longrightarrow>
   usage (snd (case r of
                     (Ok iccid, d') \<Rightarrow> (Ok (), d'\<lparr>output_profile := Some iccid\<rparr>)
                   | (Err e, d') \<Rightarrow> (Err e, d')
                   | (Aborted, d') \<Rightarrow> (Aborted, d'))) = usage d"
  by (cases r; cases "fst r") (auto simp add: usage_def page_objects_def)

lemma usage_init_output_profile: "usage (snd (init_output_profile X d)) = usage d"
  by (cases "output_colorspace (opts d)")
     (simp_all add: init_output_profile_def Let_def keep_usage usage_store_icc)

lemma usage_init_pages: "usage (init_pages d) = usage d"
  by (auto simp add: init_pages_def create_page_group_def Let_def add_object_def usage_def
        page_objects_def List.map_filter_def split: prod.splits)

lemma usage_init_intent: "usage (snd (init_intent X d)) = usage d"
  by (auto simp add: init_intent_def create_output_intent_def Let_def add_object_def usage_def
        page_objects_def List.map_filter_def split: prod.splits option.splits)

lemma usage_init: "usage (snd (init F X d)) = usage d"
proof (cases "init_output_profile X (init_start F X d)")
  case (Pair r d1)
  have u1: "usage d1 = usage d"
    using usage_init_output_profile[of X "init_start F X d"] Pair usage_init_start[of F X d]
    by simp
  show ?thesis
  proof (cases r)
    case (Ok u)
    then show ?thesis using Pair u1
      by (simp add: init_def usage_init_intent usage_init_pages)
  qed (use u1 Pair in \<open>auto simp add: init_def\<close>)
qed

lemma no_pages_yet_usage: "usage d' = usage d \<Longrightarrow> no_pages_yet d' = no_pages_yet d"
  by (simp add: usage_def no_pages_yet_def)

lemma construct_no_pages_yet:
  assumes "construct F X gd c = Ok d"
  shows "no_pages_yet d"
proof -
  have "d = snd (init F X (new_document gd c))"
    using assms by (auto simp add: construct_def split: prod.splits rvoe.splits)
  then have "usage d = usage (new_document gd c)"
    by (simp add: usage_init)
  moreover have "no_pages_yet (new_document gd c)"
    by (simp add: no_pages_yet_def new_document_def page_objects_def List.map_filter_def)
  ultimately show ?thesis using no_pages_yet_usage by blast
qed

text \<open>
  C5, as the code has it. Take a document that has no page yet (such as
  \<open>construct\<close> returns) and any run of \<open>add_page\<close> calls on it. In the
  document \<open>d\<close> that results, no form widget, annotation or structure item is
  attached to more than one page. A further \<open>add_page\<close> whose widgets or
  annotations include one that is attached to a page of \<open>d\<close> fails with
  \<open>AnnotationReuse\<close>; one whose widgets and annotations are all new but
  whose structure items include one attached to a page of \<open>d\<close> fails with
  \<open>StructureReuse\<close>. The widget and annotation checks come first, so a call
  that reuses both a widget and a structure item reports \<open>AnnotationReuse\<close>.
\<close>

theorem uniqueness_of_use:
  assumes fresh: "no_pages_yet d0" and run: "d = add_pages X d0 calls"
  shows "(\<forall>a. length (widget_pages d a) \<le> 1 \<and> length (annotation_pages d a) \<le> 1
              \<and> length (structure_pages d a) \<le> 1)
    \<and> ((\<exists>a \<in> set (pc_fws c). widget_pages d a \<noteq> [])
         \<or> (\<exists>a \<in> set (pc_annots c). annotation_pages d a \<noteq> [])
        \<longrightarrow> call_add_page X d c = (Err AnnotationReuse, d))
    \<and> (\<not> (\<exists>a \<in> set (pc_fws c). widget_pages d a \<noteq> [])
        \<and> \<not> (\<exists>a \<in> set (pc_annots c). annotation_pages d a \<noteq> [])
        \<and> (\<exists>s \<in> set (pc_structs c). structure_pages d s \<noteq> [])
        \<longrightarrow> call_add_page X d c = (Err StructureReuse, d))"
proof -
  have ok: "attached_ok d"
    unfolding run by (rule attached_ok_add_pages[OF no_pages_yet_attached_ok[OF fresh]])
  then have o1: "\<And>x. (form_use d x \<noteq> None) = (widget_pages d x \<noteq> [])"
    and o2: "\<And>x. length (widget_pages d x) \<le> 1"
    and o3: "\<And>x. (annotation_use d x \<noteq> None) = (annotation_pages d x \<noteq> [])"
    and o4: "\<And>x. length (annotation_pages d x) \<le> 1"
    and o5: "\<And>x. (structure_use d x \<noteq> None) = (structure_pages d x \<noteq> [])"
    and o6: "\<And>x. length (structure_pages d x) \<le> 1"
    by (simp_all add: attached_ok_def)
  have p1: "\<forall>a. length (widget_pages d a) \<le> 1 \<and> length (annotation_pages d a) \<le> 1
              \<and> length (structure_pages d a) \<le> 1"
    using o2 o4 o6 by blast
  have p2: "call_add_page X d c = (Err AnnotationReuse, d)"
    if "(\<exists>a \<in> set (pc_fws c). widget_pages d a \<noteq> [])
         \<or> (\<exists>a \<in> set (pc_annots c). annotation_pages d a \<noteq> [])"
  proof -
    from that have "(\<exists>a \<in> set (pc_fws c). form_use d a \<noteq> None)
         \<or> (\<exists>a \<in> set (pc_annots c). annotation_use d a \<noteq> None)"
      using o1 o3 by blast
    then show ?thesis
      by (auto simp add: call_add_page_def add_page_def)
  qed
  have p3: "call_add_page X d c = (Err StructureReuse, d)"
    if "\<not> (\<exists>a \<in> set (pc_fws c). widget_pages d a \<noteq> [])
        \<and> \<not> (\<exists>a \<in> set (pc_annots c). annotation_pages d a \<noteq> [])
        \<and> (\<exists>s \<in> set (pc_structs c). structure_pages d s \<noteq> [])"
  proof -
    from that have "\<not> (\<exists>a \<in> set (pc_fws c). form_use d a \<noteq> None)"
      "\<not> (\<exists>a \<in> set (pc_annots c). annotation_use d a \<noteq> None)"
      "\<exists>s \<in> set (pc_structs c). structure_use d s \<noteq> None"
      using o1 o3 o5 by blast+
    then show ?thesis
      by (simp add: call_add_page_def add_page_def)
  qed
  from p1 p2 p3 show ?thesis by blast
qed

lemma sample_doc_fresh: "no_pages_yet sample_doc"
  by (simp add: no_pages_yet_def sample_doc_def new_document_def page_objects_def List.map_filter_def)

lemma sample_run_facts:
  "form_use (add_pages sample_externals sample_doc [sample_call]) 7 \<noteq> None
   \<and> structure_parent_tree_items (add_pages sample_externals sample_doc [sample_call]) = [[9]]"
  by (simp add: call_add_page_def add_page_def add_page_body_def Let_def add_object_def
        sample_doc_def new_document_def sample_opts_def sample_call_def split_def)

text \<open>
  The claim as written fails for a call that reuses a structure item together
  with a widget: structure item 9 is attached to the first page, and the second
  call does not fail with \<open>StructureReuse\<close>.
\<close>

theorem uniqueness_of_use_counterexample:
  "9 \<in> set (pc_structs sample_call)
   \<and> structure_pages (add_pages sample_externals sample_doc [sample_call]) 9 \<noteq> []
   \<and> fst (call_add_page sample_externals
             (add_pages sample_externals sample_doc [sample_call]) sample_call)
       \<noteq> Err StructureReuse"
proof -
  have "fst (call_add_page sample_externals
             (add_pages sample_externals sample_doc [sample_call]) sample_call)
        = Err AnnotationReuse"
    using sample_run_facts by (simp add: call_add_page_def add_page_def sample_call_def)
  moreover have "structure_pages (add_pages sample_externals sample_doc [sample_call]) 9 \<noteq> []"
    using sample_run_facts by (simp add: structure_pages_def)
  ultimately show ?thesis by (simp add: sample_call_def)
qed

theorem uniqueness_of_use_witness:
  "no_pages_yet sample_doc
   \<and> widget_pages (add_pages sample_externals sample_doc [sample_call]) 7 \<noteq> []
   \<and> length (widget_pages (add_pages sample_externals sample_doc [sample_call]) 7) \<le> 1
   \<and> call_add_page sample_externals (add_pages sample_externals sample_doc [sample_call])
        sample_call
      = (Err AnnotationReuse, add_pages sample_externals sample_doc [sample_call])
   \<and> structure_pages (add_pages sample_externals sample_doc [sample_call]) 9 \<noteq> []
   \<and> call_add_page sample_externals (add_pages sample_externals sample_doc [sample_call])
        (sample_call\<lparr>pc_fws := []\<rparr>)
      = (Err StructureReuse, add_pages sample_externals sample_doc [sample_call])"
proof -
  let ?d = "add_pages sample_externals sample_doc [sample_call]"
  have w: "widget_pages ?d 7 \<noteq> []"
    by (simp add: call_add_page_def add_page_def add_page_body_def Let_def add_object_def
        sample_doc_def new_document_def sample_opts_def sample_call_def split_def
        widget_pages_def page_objects_def List.map_filter_def)
  have s: "structure_pages ?d 9 \<noteq> []"
    using sample_run_facts by (simp add: structure_pages_def)
  note t1 = uniqueness_of_use[OF sample_doc_fresh refl, of sample_externals "[sample_call]" sample_call]
  note t2 = uniqueness_of_use[OF sample_doc_fresh refl, of sample_externals "[sample_call]"
              "sample_call\<lparr>pc_fws := []\<rparr>"]
  have c1: "call_add_page sample_externals ?d sample_call = (Err AnnotationReuse, ?d)"
    using t1 w by (simp add: sample_call_def)
  have c2: "call_add_page sample_externals ?d (sample_call\<lparr>pc_fws := []\<rparr>)
              = (Err StructureReuse, ?d)"
    using t2 s by (simp add: sample_call_def)
  show ?thesis using sample_doc_fresh w s c1 c2 t1 by simp
qed

text \<open>
  C10. \<open>add_page\<close> is atomic on failure: whenever it returns
  \<open>AnnotationReuse\<close> or \<open>StructureReuse\<close>, the document it leaves is the
  document it was given: object table, page list and the three usage tables
  included. All three checks return before the first write.
\<close>

theorem add_page_atomic:
  assumes "fst (add_page X d rd uod cs props fws annots structs tr subnav) = Err AnnotationReuse
           \<or> fst (add_page X d rd uod cs props fws annots structs tr subnav) = Err StructureReuse"
  shows "snd (add_page X d rd uod cs props fws annots structs tr subnav) = d"
  using assms add_page_error_unchanged by blast

theorem add_page_atomic_witness:
  "fst (add_page sample_externals sample_used_doc ''<< >>'' ''<<'' ''n'' undefined [3, 7] [] []
          None []) = Err AnnotationReuse
   \<and> snd (add_page sample_externals sample_used_doc ''<< >>'' ''<<'' ''n'' undefined [3, 7] [] []
          None []) = sample_used_doc"
proof -
  have h: "fst (add_page sample_externals sample_used_doc ''<< >>'' ''<<'' ''n'' undefined [3, 7]
                  [] [] None []) = Err AnnotationReuse"
    by (simp add: add_page_def sample_used_doc_def)
  with add_page_atomic[of sample_externals sample_used_doc "''<< >>''" "''<<''" "''n''" undefined
         "[3, 7]" "[]" "[]" None "[]"]
  show ?thesis by simp
qed

section \<open>Shadings: continuation patches and colourspace mismatch\<close>

lemma shade6_loop_continuation:
  "ContinuationCoonsPatch fl ps cs \<in> set es \<Longrightarrow> shade6_loop F shade es s \<noteq> Ok s'"
proof (induction es arbitrary: s)
  case Nil
  then show ?case by simp
next
  case (Cons eh rest)
  show ?case
  proof (cases "eh = ContinuationCoonsPatch fl ps cs")
    case True
    then show ?thesis by simp
  next
    case False
    with Cons.prems have "ContinuationCoonsPatch fl ps cs \<in> set rest" by simp
    from Cons.IH[OF this] show ?thesis
      by (simp split: rvoe.splits)
  qed
qed

lemma add_shading6_not_ok:
  "serialize_shade6 F shade \<noteq> Ok s \<Longrightarrow> (\<forall>s. serialize_shade6 F shade \<noteq> Ok s) \<Longrightarrow>
   fst (add_shading6 F d shade) \<noteq> Ok n \<and> snd (add_shading6 F d shade) = d"
  by (cases "serialize_shade6 F shade") (auto simp add: add_shading6_def)

lemma add_shading6_failed:
  "\<forall>s. serialize_shade6 F shade \<noteq> Ok s \<Longrightarrow>
   (add_shading6 F d shade = (Aborted, d) \<or> (\<exists>e. add_shading6 F d shade = (Err e, d)))"
  by (cases "serialize_shade6 F shade") (auto simp add: add_shading6_def)

lemma add_shading4_failed:
  "\<forall>s. serialize_shade4 X F shade \<noteq> Ok s \<Longrightarrow>
   (add_shading4 X F d shade = (Aborted, d) \<or> (\<exists>e. add_shading4 X F d shade = (Err e, d)))"
  by (cases "serialize_shade4 X F shade") (auto simp add: add_shading4_def)

text \<open>
  C7. A type 6 shading whose element list contains a continuation patch is never
  serialized: \<open>serialize_shade6\<close> returns no output, and \<open>add_shading\<close>
  fails without adding an object. The failure is the \<open>std::abort()\<close> at the
  continuation patch, unless a patch before it already returned an error.
\<close>

theorem continuation_patch_fails:
  assumes "ContinuationCoonsPatch fl ps cs \<in> set (elements shade)"
  shows "(\<forall>s. serialize_shade6 F shade \<noteq> Ok s)
         \<and> (add_shading6 F d shade = (Aborted, d) \<or> (\<exists>e. add_shading6 F d shade = (Err e, d)))"
proof -
  have "\<forall>s. serialize_shade6 F shade \<noteq> Ok s"
    using shade6_loop_continuation[OF assms] by (simp add: serialize_shade6_def)
  then show ?thesis using add_shading6_failed by blast
qed

lemma real_fpu_simps [simp]:
  "fp_sub real_fpu a b = a - b" "fp_div real_fpu a b = a / b"
  "fp_out_of_unit real_fpu v = (v < 0 \<or> v > 1)"
  by (simp_all add: real_fpu_def)

lemma sample_cont_serialize: "serialize_shade6 real_fpu sample_shade6_continuation = Aborted"
  apply (simp add: serialize_shade6_def sample_shade6_continuation_def)
  apply (simp add: numeral_eq_Suc xratio_of_def yratio_of_def append_floatvalue32_def append_floatvalue16_def)
  done

theorem continuation_patch_fails_witness:
  "ContinuationCoonsPatch 1 (replicate 8 \<lparr>px = 0, py = 1\<rparr>) (replicate 2 (DeviceRGBColor 0 0 0))
     \<in> set (elements sample_shade6_continuation)
   \<and> add_shading6 real_fpu sample_doc sample_shade6_continuation = (Aborted, sample_doc)"
proof -
  have m: "ContinuationCoonsPatch 1 (replicate 8 \<lparr>px = 0, py = 1\<rparr>) (replicate 2 (DeviceRGBColor 0 0 0))
     \<in> set (elements sample_shade6_continuation)"
    by (simp add: sample_shade6_continuation_def)
  have "add_shading6 real_fpu sample_doc sample_shade6_continuation = (Aborted, sample_doc)"
    using continuation_patch_fails[OF m, of real_fpu sample_doc] sample_cont_serialize
    by (auto simp add: add_shading6_def)
  with m show ?thesis by simp
qed


lemma shade4_loop_append:
  "shade4_loop X F shade (pre @ rest) s =
     (case shade4_loop X F shade pre s of
        Ok s1 \<Rightarrow> shade4_loop X F shade rest s1
      | Err err \<Rightarrow> Err err
      | Aborted \<Rightarrow> Aborted)"
  by (induction pre arbitrary: s) (simp_all split: rvoe.splits)

lemma shade6_loop_append:
  "shade6_loop F shade (pre @ rest) s =
     (case shade6_loop F shade pre s of
        Ok s1 \<Rightarrow> shade6_loop F shade rest s1
      | Err err \<Rightarrow> Err err
      | Aborted \<Rightarrow> Aborted)"
  by (induction pre arbitrary: s) (simp_all split: rvoe.splits)

lemma shade6_colors_append:
  "shade6_colors F cs (pre @ rest) s =
     (case shade6_colors F cs pre s of
        Ok s1 \<Rightarrow> shade6_colors F cs rest s1
      | Err err \<Rightarrow> Err err
      | Aborted \<Rightarrow> Aborted)"
  by (induction pre arbitrary: s) (simp_all split: rvoe.splits)

lemma shade4_color_mismatch:
  "device_colorspace col = Some cs' \<Longrightarrow> cs' \<noteq> cs \<Longrightarrow>
   shade4_color F cs s col = Err ColorspaceMismatch"
  by (cases col) auto

lemma shade4_color_not_ok:
  "device_colorspace col \<noteq> Some cs \<Longrightarrow> shade4_color F cs s col \<noteq> Ok s'"
  by (cases col) auto

lemma shade6_color_mismatch:
  "device_colorspace col \<noteq> Some cs \<Longrightarrow> shade6_color F cs s col = Err ColorspaceMismatch"
  by (cases cs; cases col) auto

lemma ERC_not_ok: "(\<And>v. f v \<noteq> Ok w) \<Longrightarrow> ERC r f \<noteq> Ok w"
  by (cases r) auto

lemma shade4_element_mismatch:
  assumes "ndebug X \<or> flag e mod 256 < 3"
    and "\<not> fp_out_of_unit F (xratio_of F shade (sp_p (sp e)))"
    and "\<not> fp_out_of_unit F (yratio_of F shade (sp_p (sp e)))"
    and "device_colorspace (sp_c (sp e)) = Some cs'" and "cs' \<noteq> colorspace shade"
  shows "shade4_element X F shade s e = Err ColorspaceMismatch"
  using assms
  by (auto simp add: shade4_element_def append_floatvalue32_def shade4_color_mismatch)

lemma shade4_element_not_ok:
  assumes "device_colorspace (sp_c (sp e)) \<noteq> Some (colorspace shade)"
  shows "shade4_element X F shade s e \<noteq> Ok s'"
  using assms shade4_color_not_ok[of "sp_c (sp e)" "colorspace shade" F]
  by (auto simp add: shade4_element_def intro!: ERC_not_ok)

lemma shade4_loop_not_ok:
  "e \<in> set es \<Longrightarrow> device_colorspace (sp_c (sp e)) \<noteq> Some (colorspace shade) \<Longrightarrow>
   shade4_loop X F shade es s \<noteq> Ok s'"
proof (induction es arbitrary: s)
  case Nil
  then show ?case by simp
next
  case (Cons a rest)
  show ?case
  proof (cases "a = e")
    case True
    then show ?thesis
      using shade4_element_not_ok[OF Cons.prems(2), of X F s]
      by (cases "shade4_element X F shade s e") auto
  next
    case False
    with Cons.prems have "e \<in> set rest" by simp
    from Cons.IH[OF this Cons.prems(2)] show ?thesis
      by (simp split: rvoe.splits)
  qed
qed

lemma shade6_colors_not_ok:
  "c \<in> set cs \<Longrightarrow> device_colorspace c \<noteq> Some sp' \<Longrightarrow> shade6_colors F sp' cs s \<noteq> Ok s'"
proof (induction cs arbitrary: s)
  case Nil
  then show ?case by simp
next
  case (Cons a rest)
  show ?case
  proof (cases "a = c")
    case True
    then show ?thesis using shade6_color_mismatch[OF Cons.prems(2), of F s] by simp
  next
    case False
    with Cons.prems have "c \<in> set rest" by simp
    from Cons.IH[OF this Cons.prems(2)] show ?thesis
      by (simp split: rvoe.splits)
  qed
qed

lemma shade6_element_not_ok:
  "c \<in> set cs \<Longrightarrow> device_colorspace c \<noteq> Some (colorspace shade) \<Longrightarrow>
   shade6_element F shade s (FullCoonsPatch ps cs) \<noteq> Ok s'"
  using shade6_colors_not_ok[of c cs "colorspace shade" F]
  by (auto intro!: ERC_not_ok)

lemma shade6_loop_not_ok:
  "FullCoonsPatch ps cs \<in> set es \<Longrightarrow> c \<in> set cs \<Longrightarrow>
   device_colorspace c \<noteq> Some (colorspace shade) \<Longrightarrow>
   shade6_loop F shade es s \<noteq> Ok s'"
proof (induction es arbitrary: s)
  case Nil
  then show ?case by simp
next
  case (Cons a rest)
  show ?case
  proof (cases "a = FullCoonsPatch ps cs")
    case True
    then show ?thesis
      using shade6_element_not_ok[OF Cons.prems(2,3), of F s ps]
      by (cases "shade6_element F shade s (FullCoonsPatch ps cs)") auto
  next
    case False
    with Cons.prems have "FullCoonsPatch ps cs \<in> set rest" by simp
    from Cons.IH[OF this Cons.prems(2,3)] show ?thesis
      by (simp split: rvoe.splits)
  qed
qed

lemma serialize_shade4_mismatch:
  assumes "elements shade = pre @ e # post"
    and "shade4_loop X F shade pre [] = Ok s"
    and "ndebug X \<or> flag e mod 256 < 3"
    and "\<not> fp_out_of_unit F (xratio_of F shade (sp_p (sp e)))"
    and "\<not> fp_out_of_unit F (yratio_of F shade (sp_p (sp e)))"
    and "device_colorspace (sp_c (sp e)) = Some cs'" and "cs' \<noteq> colorspace shade"
  shows "serialize_shade4 X F shade = Err ColorspaceMismatch"
  using assms(1,2) shade4_element_mismatch[OF assms(3-7), of s]
  by (simp add: serialize_shade4_def shade4_loop_append)

lemma serialize_shade6_mismatch:
  assumes "elements shade = pre @ FullCoonsPatch ps (cpre @ c # cpost) # post"
    and "shade6_loop F shade pre [] = Ok s"
    and "shade6_points F shade ps (s @ [char_of (0::nat)]) = Ok s1"
    and "shade6_colors F (colorspace shade) cpre s1 = Ok s2"
    and "device_colorspace c \<noteq> Some (colorspace shade)"
  shows "serialize_shade6 F shade = Err ColorspaceMismatch"
  using assms(1-4) shade6_color_mismatch[OF assms(5), of F s2]
  by (simp add: serialize_shade6_def shade6_loop_append shade6_colors_append)

text \<open>
  C6, as the code has it. The checks run in the order of the data, and the first
  one that fails decides the result.

  Type 4: when the vertices before \<open>e\<close> serialize, the flag of \<open>e\<close> passes
  the assertion, its two coordinate ratios are within \<open>[0, 1]\<close>, and its colour
  is a device colour of another colourspace than the shade's, serialization fails
  with \<open>ColorspaceMismatch\<close> and \<open>add_shading\<close> returns that error and
  leaves the document as it was.

  Type 6: when the patches before a full patch serialize, the control points of
  the patch serialize and so do the corner colours before \<open>c\<close>, and \<open>c\<close> is
  not a colour of the shade's colourspace, the same holds.

  In every case a shade with such a vertex or corner colour is never serialized
  and \<open>add_shading\<close> adds no object: it returns an error or aborts.
\<close>

theorem shading_colorspace_mismatch:
  "(elements sh4 = pre4 @ e # post4
      \<and> shade4_loop X F sh4 pre4 [] = Ok s4
      \<and> (ndebug X \<or> flag e mod 256 < 3)
      \<and> \<not> fp_out_of_unit F (xratio_of F sh4 (sp_p (sp e)))
      \<and> \<not> fp_out_of_unit F (yratio_of F sh4 (sp_p (sp e)))
      \<and> device_colorspace (sp_c (sp e)) = Some cs'
      \<and> cs' \<noteq> colorspace sh4
    \<longrightarrow> serialize_shade4 X F sh4 = Err ColorspaceMismatch
        \<and> add_shading4 X F d sh4 = (Err ColorspaceMismatch, d))
   \<and> (elements sh6 = pre6 @ FullCoonsPatch ps (cpre @ c # cpost) # post6
      \<and> shade6_loop F sh6 pre6 [] = Ok s6
      \<and> shade6_points F sh6 ps (s6 @ [char_of (0::nat)]) = Ok s6'
      \<and> shade6_colors F (colorspace sh6) cpre s6' = Ok s6''
      \<and> device_colorspace c \<noteq> Some (colorspace sh6)
    \<longrightarrow> serialize_shade6 F sh6 = Err ColorspaceMismatch
        \<and> add_shading6 F d sh6 = (Err ColorspaceMismatch, d))
   \<and> (v \<in> set (elements sh4) \<and> device_colorspace (sp_c (sp v)) \<noteq> Some (colorspace sh4)
    \<longrightarrow> (\<forall>s. serialize_shade4 X F sh4 \<noteq> Ok s)
        \<and> (add_shading4 X F d sh4 = (Aborted, d) \<or> (\<exists>err. add_shading4 X F d sh4 = (Err err, d))))
   \<and> (FullCoonsPatch qs cs \<in> set (elements sh6) \<and> k \<in> set cs
      \<and> device_colorspace k \<noteq> Some (colorspace sh6)
    \<longrightarrow> (\<forall>s. serialize_shade6 F sh6 \<noteq> Ok s)
        \<and> (add_shading6 F d sh6 = (Aborted, d) \<or> (\<exists>err. add_shading6 F d sh6 = (Err err, d))))"
proof (intro conjI impI)
  assume a: "elements sh4 = pre4 @ e # post4
      \<and> shade4_loop X F sh4 pre4 [] = Ok s4
      \<and> (ndebug X \<or> flag e mod 256 < 3)
      \<and> \<not> fp_out_of_unit F (xratio_of F sh4 (sp_p (sp e)))
      \<and> \<not> fp_out_of_unit F (yratio_of F sh4 (sp_p (sp e)))
      \<and> device_colorspace (sp_c (sp e)) = Some cs'
      \<and> cs' \<noteq> colorspace sh4"
  then show r: "serialize_shade4 X F sh4 = Err ColorspaceMismatch"
    using serialize_shade4_mismatch[of sh4 pre4 e post4 X F s4 cs'] by blast
  show "add_shading4 X F d sh4 = (Err ColorspaceMismatch, d)"
    by (simp add: add_shading4_def r)
next
  assume a: "elements sh6 = pre6 @ FullCoonsPatch ps (cpre @ c # cpost) # post6
      \<and> shade6_loop F sh6 pre6 [] = Ok s6
      \<and> shade6_points F sh6 ps (s6 @ [char_of (0::nat)]) = Ok s6'
      \<and> shade6_colors F (colorspace sh6) cpre s6' = Ok s6''
      \<and> device_colorspace c \<noteq> Some (colorspace sh6)"
  then show r: "serialize_shade6 F sh6 = Err ColorspaceMismatch"
    using serialize_shade6_mismatch[of sh6 pre6 ps cpre c cpost post6 F s6 s6' s6''] by blast
  show "add_shading6 F d sh6 = (Err ColorspaceMismatch, d)"
    by (simp add: add_shading6_def r)
next
  assume a: "v \<in> set (elements sh4) \<and> device_colorspace (sp_c (sp v)) \<noteq> Some (colorspace sh4)"
  then show r: "\<forall>s. serialize_shade4 X F sh4 \<noteq> Ok s"
    using shade4_loop_not_ok[of v "elements sh4" sh4 X F "[]"]
    by (simp add: serialize_shade4_def)
  show "add_shading4 X F d sh4 = (Aborted, d) \<or> (\<exists>err. add_shading4 X F d sh4 = (Err err, d))"
    using add_shading4_failed[OF r] .
next
  assume a: "FullCoonsPatch qs cs \<in> set (elements sh6) \<and> k \<in> set cs
      \<and> device_colorspace k \<noteq> Some (colorspace sh6)"
  then show r: "\<forall>s. serialize_shade6 F sh6 \<noteq> Ok s"
    using shade6_loop_not_ok[of qs cs "elements sh6" k sh6 F "[]"]
    by (simp add: serialize_shade6_def)
  show "add_shading6 F d sh6 = (Aborted, d) \<or> (\<exists>err. add_shading6 F d sh6 = (Err err, d))"
    using add_shading6_failed[OF r] .
qed

text \<open>
  The claim as written fails when an earlier check fails first: a gray vertex in
  a DeviceRGB shade whose x coordinate lies outside the bounding box is reported
  as \<open>ColorOutOfRange\<close>, because the coordinates are written before the
  colour is looked at.
\<close>

theorem shading_colorspace_mismatch_counterexample:
  "device_colorspace (sp_c (sp (hd (elements (sample_shade4 5))))) = Some CAPY_CS_DEVICE_GRAY
   \<and> colorspace (sample_shade4 5) = CAPY_CS_DEVICE_RGB
   \<and> serialize_shade4 sample_externals real_fpu (sample_shade4 5) = Err ColorOutOfRange
   \<and> add_shading4 sample_externals real_fpu sample_doc (sample_shade4 5)
       = (Err ColorOutOfRange, sample_doc)"
  by (simp add: sample_shade4_def serialize_shade4_def shade4_element_def add_shading4_def
        xratio_of_def yratio_of_def append_floatvalue32_def sample_externals_def)


lemma shade6_points_ok:
  "(\<And>p. p \<in> set ps \<Longrightarrow> \<not> fp_out_of_unit F (xratio_of F shade p)
                          \<and> \<not> fp_out_of_unit F (yratio_of F shade p)) \<Longrightarrow>
   \<exists>s'. shade6_points F shade ps s = Ok s'"
  by (induction ps arbitrary: s) (auto simp add: append_floatvalue32_def)

theorem shading_colorspace_mismatch_witness:
  "serialize_shade4 sample_externals real_fpu (sample_shade4 0) = Err ColorspaceMismatch
   \<and> add_shading4 sample_externals real_fpu sample_doc (sample_shade4 0)
       = (Err ColorspaceMismatch, sample_doc)
   \<and> serialize_shade6 real_fpu sample_shade6 = Err ColorspaceMismatch
   \<and> add_shading6 real_fpu sample_doc sample_shade6 = (Err ColorspaceMismatch, sample_doc)"
proof -
  let ?e = "\<lparr>sp = \<lparr>sp_p = \<lparr>px = 0, py = 0\<rparr>, sp_c = DeviceGrayColor (0::real)\<rparr>, flag = 0\<rparr>"
  let ?ps = "replicate 12 \<lparr>px = 0::real, py = 1\<rparr>"
  let ?cpre = "[DeviceRGBColor 0 0 0, DeviceRGBColor 1 0 (0::real)]"
  have h4: "elements (sample_shade4 0) = [] @ ?e # []
      \<and> shade4_loop sample_externals real_fpu (sample_shade4 0) [] [] = Ok []
      \<and> (ndebug sample_externals \<or> flag ?e mod 256 < 3)
      \<and> \<not> fp_out_of_unit real_fpu (xratio_of real_fpu (sample_shade4 0) (sp_p (sp ?e)))
      \<and> \<not> fp_out_of_unit real_fpu (yratio_of real_fpu (sample_shade4 0) (sp_p (sp ?e)))
      \<and> device_colorspace (sp_c (sp ?e)) = Some CAPY_CS_DEVICE_GRAY
      \<and> CAPY_CS_DEVICE_GRAY \<noteq> colorspace (sample_shade4 0)"
    by (simp add: sample_shade4_def xratio_of_def yratio_of_def)
  obtain s1 where s1: "shade6_points real_fpu sample_shade6 ?ps ([] @ [char_of (0::nat)]) = Ok s1"
    using shade6_points_ok[of ?ps real_fpu sample_shade6 "[] @ [char_of (0::nat)]"]
    by (auto simp add: xratio_of_def yratio_of_def sample_shade6_def)
  obtain s2 where s2: "shade6_colors real_fpu (colorspace sample_shade6) ?cpre s1 = Ok s2"
    by (simp add: sample_shade6_def append_floatvalue16_def)
  have h6: "elements sample_shade6
        = [] @ FullCoonsPatch ?ps (?cpre @ DeviceGrayColor 0 # [DeviceRGBColor 0 0 1]) # []
      \<and> shade6_loop real_fpu sample_shade6 [] [] = Ok []
      \<and> shade6_points real_fpu sample_shade6 ?ps ([] @ [char_of (0::nat)]) = Ok s1
      \<and> shade6_colors real_fpu (colorspace sample_shade6) ?cpre s1 = Ok s2
      \<and> device_colorspace (DeviceGrayColor (0::real)) \<noteq> Some (colorspace sample_shade6)"
    using s1 s2 by (simp add: sample_shade6_def)
  have n4: "?e \<in> set (elements (sample_shade4 0))
      \<and> device_colorspace (sp_c (sp ?e)) \<noteq> Some (colorspace (sample_shade4 0))"
    by (simp add: sample_shade4_def)
  have n6: "FullCoonsPatch ?ps (?cpre @ DeviceGrayColor 0 # [DeviceRGBColor 0 0 1])
        \<in> set (elements sample_shade6)
      \<and> DeviceGrayColor 0 \<in> set (?cpre @ DeviceGrayColor 0 # [DeviceRGBColor 0 0 1])
      \<and> device_colorspace (DeviceGrayColor (0::real)) \<noteq> Some (colorspace sample_shade6)"
    by (simp add: sample_shade6_def)
  from shading_colorspace_mismatch[of "sample_shade4 0" "[]" ?e "[]" sample_externals real_fpu "[]"
         CAPY_CS_DEVICE_GRAY sample_doc sample_shade6 "[]" ?ps ?cpre "DeviceGrayColor 0"
         "[DeviceRGBColor 0 0 1]" "[]" "[]" s1 s2 ?e ?ps
         "?cpre @ DeviceGrayColor 0 # [DeviceRGBColor 0 0 1]" "DeviceGrayColor 0"]
  show ?thesis using h4 h6 n4 n6 by blast
qed

section \<open>Contexts of another document, and profiles stored twice\<close>

lemma add_pattern_other_document:
  "doc ctx \<noteq> this \<Longrightarrow>
   add_pattern F build_resource_dict this d ctx = (Err IncorrectDocumentForObject, d)"
  by (simp add: add_pattern_def)


text \<open>
  C2. \<open>add_pattern\<close> rejects a draw context that belongs to another document
  with \<open>IncorrectDocumentForObject\<close> and adds nothing
  (\<open>add_pattern_other_document\<close>). \<open>add_transparency_group\<close> does not
  compare the documents: called on the document at address 1 with a transparency
  group context of the document at address 2, it succeeds and appends the
  group's object to the table.
\<close>

theorem add_transparency_group_other_document:
  "doc sample_group_ctx \<noteq> 1
   \<and> add_pattern real_fpu (\<lambda>ctx. ''<< >>'') 1 sample_doc
        (sample_group_ctx\<lparr>context_type := CAPY_DC_COLOR_TILING\<rparr>)
      = (Err IncorrectDocumentForObject, sample_doc)
   \<and> fst (add_transparency_group sample_serialize 1 sample_doc sample_group_ctx None) = Ok 0
   \<and> document_objects
        (snd (add_transparency_group sample_serialize 1 sample_doc sample_group_ctx None))
      = document_objects sample_doc @ [FullPDFObject ''<< /Type /XObject >>'' ''n'']"
  by (simp add: add_pattern_def add_transparency_group_def sample_group_ctx_def
        sample_serialize_def add_object_def Let_def i32_small sample_doc_def new_document_def)

lemma sample_icc_doc_value:
  "load_icc_file sample_externals sample_doc ''ICC'' =
     (Ok 0, sample_doc\<lparr>document_objects := document_objects sample_doc @
               [DeflatePDFObject (''<<'' @ nl @ ''  /N '' @ fmt_int 3 @ nl) ''ICC'',
                FullPDFObject (''[ /ICCBased '' @ fmt_int 4 @ '' 0 R ]'' @ nl) []],
             icc_profiles := [\<lparr>stream_num = 4, object_num = 5, num_channels = 3\<rparr>]\<rparr>)"
  by (simp add: load_icc_file_def sample_externals_def find_icc_profile_def
        store_icc_profile_def add_object_def Let_def sample_doc_def new_document_def i32_small)


lemma sample_icc_doc_eq:
  "sample_icc_doc = sample_doc\<lparr>document_objects := document_objects sample_doc @
               [DeflatePDFObject (''<<'' @ nl @ ''  /N '' @ fmt_int 3 @ nl) ''ICC'',
                FullPDFObject (''[ /ICCBased '' @ fmt_int 4 @ '' 0 R ]'' @ nl) []],
             icc_profiles := [\<lparr>stream_num = 4, object_num = 5, num_channels = 3\<rparr>]\<rparr>"
  by (simp add: sample_icc_doc_def sample_icc_doc_value)

lemma sample_icc_find: "find_icc_profile sample_icc_doc ''ICC'' = Ok (Some 0)"
  by (simp add: sample_icc_doc_eq find_icc_profile_def sample_doc_def new_document_def i32_small)

lemma find_then_load:
  "load_file X fname = Ok contents \<Longrightarrow> find_icc_profile d contents = Ok (Some i) \<Longrightarrow>
   load_icc_file X d fname = (Ok i, d)"
  by (simp add: load_icc_file_def)

lemma find_then_store:
  "find_icc_profile d contents = Ok (Some i) \<Longrightarrow> \<not> ndebug X \<Longrightarrow>
   store_icc_profile X d contents ch = (Aborted, d)"
  by (simp add: store_icc_profile_def)

text \<open>
  C3. \<open>load_icc_file\<close> returns the id of an equal profile that is already
  stored (\<open>find_then_load\<close>). \<open>add_image\<close> does not: with the profile
  \<open>ICC\<close> stored as id 0, an image that embeds the same bytes runs into the
  assertion of \<open>store_icc_profile\<close> and aborts; with assertions compiled out
  the profile is stored again, under the new id 1.
\<close>

theorem icc_profile_stored_twice:
  "load_icc_file sample_externals sample_doc ''ICC'' = (Ok 0, sample_icc_doc)
   \<and> load_icc_file sample_externals sample_icc_doc ''ICC'' = (Ok 0, sample_icc_doc)
   \<and> add_image sample_externals sample_icc_doc sample_image False = (Aborted, sample_icc_doc)
   \<and> fst (store_icc_profile (sample_externals\<lparr>ndebug := True\<rparr>) sample_icc_doc ''ICC'' 3) = Ok 1
   \<and> length (icc_profiles
        (snd (add_image (sample_externals\<lparr>ndebug := True\<rparr>) sample_icc_doc sample_image False)))
      = 2"
proof (intro conjI)
  show "load_icc_file sample_externals sample_doc ''ICC'' = (Ok 0, sample_icc_doc)"
    by (simp add: sample_icc_doc_def sample_icc_doc_value)
  show "load_icc_file sample_externals sample_icc_doc ''ICC'' = (Ok 0, sample_icc_doc)"
    by (rule find_then_load[OF _ sample_icc_find]) (simp add: sample_externals_def)
  have st: "store_icc_profile sample_externals sample_icc_doc ''ICC'' 3 = (Aborted, sample_icc_doc)"
    by (rule find_then_store[OF sample_icc_find]) (simp add: sample_externals_def)
  show "add_image sample_externals sample_icc_doc sample_image False = (Aborted, sample_icc_doc)"
    using st by (simp add: add_image_def add_image_main_def sample_image_def Let_def)
  have st2: "store_icc_profile (sample_externals\<lparr>ndebug := True\<rparr>) sample_icc_doc ''ICC'' 3
        = (Ok 1, sample_icc_doc\<lparr>document_objects := document_objects sample_icc_doc @
               [DeflatePDFObject (''<<'' @ nl @ ''  /N '' @ fmt_int 3 @ nl) ''ICC'',
                FullPDFObject (''[ /ICCBased '' @ fmt_int 6 @ '' 0 R ]'' @ nl) []],
             icc_profiles := [\<lparr>stream_num = 4, object_num = 5, num_channels = 3\<rparr>,
                              \<lparr>stream_num = 6, object_num = 7, num_channels = 3\<rparr>]\<rparr>)"
    apply (simp add: store_icc_profile_def sample_icc_find)
    apply (simp add: add_object_def Let_def i32_small sample_icc_doc_eq sample_doc_def
             new_document_def)
    done
  then show "fst (store_icc_profile (sample_externals\<lparr>ndebug := True\<rparr>) sample_icc_doc ''ICC'' 3) = Ok 1"
    by simp
  show "length (icc_profiles
        (snd (add_image (sample_externals\<lparr>ndebug := True\<rparr>) sample_icc_doc sample_image False)))
      = 2"
    using st2
    by (simp add: add_image_def add_image_main_def sample_image_def Let_def add_image_object_def
          sample_externals_def add_object_def split_def)
qed

section \<open>Padding of the last font subset\<close>

lemma glyph_index_None: "(glyph_index gs c i = None) = (c \<notin> set gs)"
  by (induction gs arbitrary: i) auto

lemma glyph_index_Some: "glyph_index gs c i = Some j \<Longrightarrow> c \<in> set gs"
  using glyph_index_None[of gs c i] by auto

lemma find_glyph_None: "(find_glyph s c k = None) = unused_codepoint s c"
proof (induction s arbitrary: k)
  case Nil
  then show ?case by (simp add: unused_codepoint_def)
next
  case (Cons a s)
  show ?case
  proof (cases "glyph_index a c 0")
    case None
    then have "c \<notin> set a" by (simp add: glyph_index_None)
    then show ?thesis using None Cons.IH[of "Suc k"] by (simp add: unused_codepoint_def)
  next
    case (Some j)
    then have "c \<in> set a" by (rule glyph_index_Some)
    then show ?thesis using Some by (simp add: unused_codepoint_def)
  qed
qed

lemma get_glyph_subset_used:
  "\<not> unused_codepoint s c \<Longrightarrow> snd (get_glyph_subset s c) = s"
  using find_glyph_None[of s c 0]
  by (auto simp add: get_glyph_subset_def split: option.splits)

lemma get_glyph_subset_new:
  "unused_codepoint s c \<Longrightarrow> length (last s) < 256 \<Longrightarrow>
   snd (get_glyph_subset s c) = butlast s @ [last s @ [c]]"
  using find_glyph_None[of s c 0]
  by (auto simp add: get_glyph_subset_def unchecked_insert_glyph_to_last_subset_def split: option.splits)

lemma unused_after_insert:
  "s \<noteq> [] \<Longrightarrow> unused_codepoint (butlast s @ [last s @ [c]]) x = (unused_codepoint s x \<and> x \<noteq> c)"
proof -
  assume "s \<noteq> []"
  then have "s = butlast s @ [last s]" by simp
  then have "set s = set (butlast s @ [last s])" by simp
  then have "set s = set (butlast s) \<union> {last s}" by simp
  then show ?thesis by (auto simp add: unused_codepoint_def)
qed

lemma free_candidates_step_used:
  "i < 99 \<Longrightarrow> \<not> unused_codepoint s (33 + i) \<Longrightarrow> free_candidates s i = free_candidates s (Suc i)"
  by (simp add: free_candidates_def upt_conv_Cons)

lemma free_candidates_step_new:
  "i < 99 \<Longrightarrow> unused_codepoint s (33 + i) \<Longrightarrow> s \<noteq> [] \<Longrightarrow>
   free_candidates s i = (33 + i) # free_candidates (butlast s @ [last s @ [33 + i]]) (Suc i)"
proof -
  assume a: "i < 99" "unused_codepoint s (33 + i)" "s \<noteq> []"
  have "filter (unused_codepoint (butlast s @ [last s @ [33 + i]])) [34 + i ..< 132]
        = filter (unused_codepoint s) [34 + i ..< 132]"
    by (rule filter_cong) (auto simp add: unused_after_insert[OF a(3)])
  then show ?thesis using a by (simp add: free_candidates_def upt_conv_Cons)
qed

lemma pad_loop_result:
  "s \<noteq> [] \<Longrightarrow> sid = length s - 1 \<Longrightarrow> length (last s) \<le> 32 \<Longrightarrow> i < 100 \<Longrightarrow>
   (32 - length (last s) \<le> length (free_candidates s i) \<longrightarrow>
      pad_loop s sid i
        = Some (butlast s @ [last s @ take (32 - length (last s)) (free_candidates s i)]))
   \<and> (length (free_candidates s i) < 32 - length (last s) \<longrightarrow> pad_loop s sid i = None)"
proof (induction s sid i rule: pad_loop.induct)
  case (1 s sid i)
  have nth: "s ! sid = last s" using "1.prems"(1,2) by (simp add: last_conv_nth)
  show ?case
  proof (cases "length (last s) = 32")
    case True
    then have "pad_loop s sid i = Some s"
      using "1.prems"(4) nth by (simp add: pad_loop.simps)
    then show ?thesis using True "1.prems"(1) by simp
  next
    case False
    then have lt: "length (last s) < 32" using "1.prems"(3) by simp
    let ?c = "33 + i"
    let ?s1 = "snd (get_glyph_subset s ?c)"
    have unfold: "pad_loop s sid i = pad_loop ?s1 sid (Suc i)"
      using "1.prems"(4) nth False by (subst pad_loop.simps) simp
    show ?thesis
    proof (cases "i = 99")
      case True
      have "pad_loop ?s1 sid (Suc i) = None"
        using True by (subst pad_loop.simps) simp
      moreover have "free_candidates s i = []"
        using True by (simp add: free_candidates_def)
      ultimately show ?thesis using unfold lt by simp
    next
      case ne: False
      then have i99: "i < 99" and si: "Suc i < 100" using "1.prems"(4) by simp_all
      show ?thesis
      proof (cases "unused_codepoint s ?c")
        case used: False
        then have s1: "?s1 = s" by (rule get_glyph_subset_used)
        have ih: "(32 - length (last s) \<le> length (free_candidates s (Suc i)) \<longrightarrow>
            pad_loop s sid (Suc i)
              = Some (butlast s @ [last s @ take (32 - length (last s)) (free_candidates s (Suc i))]))
          \<and> (length (free_candidates s (Suc i)) < 32 - length (last s) \<longrightarrow>
               pad_loop s sid (Suc i) = None)"
          using "1.IH"[OF "1.prems"(4) _ ] nth False s1 "1.prems"(1,2,3) si by simp
        have fc: "free_candidates s i = free_candidates s (Suc i)"
          using free_candidates_step_used[OF i99 used] .
        show ?thesis using ih unfold s1 fc by simp
      next
        case new: True
        have l256: "length (last s) < 256" using lt by simp
        have s1: "?s1 = butlast s @ [last s @ [?c]]"
          using get_glyph_subset_new[OF new l256] .
        have p1: "?s1 \<noteq> []" "sid = length ?s1 - 1" "length (last ?s1) \<le> 32"
          using s1 "1.prems"(1,2) lt by simp_all
        have ih: "(32 - length (last ?s1) \<le> length (free_candidates ?s1 (Suc i)) \<longrightarrow>
            pad_loop ?s1 sid (Suc i)
              = Some (butlast ?s1 @
                       [last ?s1 @ take (32 - length (last ?s1)) (free_candidates ?s1 (Suc i))]))
          \<and> (length (free_candidates ?s1 (Suc i)) < 32 - length (last ?s1) \<longrightarrow>
               pad_loop ?s1 sid (Suc i) = None)"
          using "1.IH"[OF "1.prems"(4) _ p1 si] nth False by simp
        have fc: "free_candidates s i = ?c # free_candidates ?s1 (Suc i)"
          using free_candidates_step_new[OF i99 new "1.prems"(1)] s1 by simp
        have l1: "last ?s1 = last s @ [?c]" "butlast ?s1 = butlast s"
          using s1 by simp_all
        have tk: "take (32 - length (last s)) (free_candidates s i)
                  = ?c # take (32 - length (last ?s1)) (free_candidates ?s1 (Suc i))"
        proof -
          have "32 - length (last s) = Suc (32 - length (last ?s1))"
            using l1(1) lt by simp
          then show ?thesis using fc by simp
        qed
        show ?thesis
        proof (intro conjI impI)
          assume "32 - length (last s) \<le> length (free_candidates s i)"
          then have "32 - length (last ?s1) \<le> length (free_candidates ?s1 (Suc i))"
            using fc l1 lt by simp
          with ih have "pad_loop ?s1 sid (Suc i)
              = Some (butlast ?s1 @
                       [last ?s1 @ take (32 - length (last ?s1)) (free_candidates ?s1 (Suc i))])"
            by blast
          then show "pad_loop s sid i
              = Some (butlast s @ [last s @ take (32 - length (last s)) (free_candidates s i)])"
            using unfold l1 tk by simp
        next
          assume "length (free_candidates s i) < 32 - length (last s)"
          then have "length (free_candidates ?s1 (Suc i)) < 32 - length (last ?s1)"
            using fc l1 lt by simp
          with ih unfold show "pad_loop s sid i = None" by simp
        qed
      qed
    qed
  qed
qed

lemma pad_font_unchanged:
  "s \<noteq> [] \<Longrightarrow> 32 < length (last s) \<Longrightarrow> pad_font X s = Ok s"
  by (simp add: pad_font_def Let_def last_conv_nth)

lemma pad_font_padded:
  assumes "s \<noteq> []" "length (last s) \<le> 32" "32 - length (last s) \<le> length (free_candidates s 0)"
  shows "pad_font X s
         = Ok (butlast s @ [last s @ take (32 - length (last s)) (free_candidates s 0) @ [32]])"
proof -
  let ?pad = "take (32 - length (last s)) (free_candidates s 0)"
  from pad_loop_result[OF assms(1) refl assms(2), of 0] assms(3)
  have pl: "pad_loop s (length s - 1) 0 = Some (butlast s @ [last s @ ?pad])" by simp
  have len: "length (last s @ ?pad) = 32" using assms(2,3) by simp
  show ?thesis
    using assms(1,2) pl len
    by (simp add: pad_font_def Let_def last_conv_nth unchecked_insert_glyph_to_last_subset_def
          nth_append)
qed

lemma pad_font_aborts:
  assumes "s \<noteq> []" "length (last s) \<le> 32" "length (free_candidates s 0) < 32 - length (last s)"
  shows "pad_font X s = Aborted"
proof -
  from pad_loop_result[OF assms(1) refl assms(2), of 0] assms(3)
  have "pad_loop s (length s - 1) 0 = None" by auto
  then show ?thesis using assms(1,2)
    by (simp add: pad_font_def Let_def last_conv_nth)
qed

lemma pad_font_can_pad: "can_pad s \<Longrightarrow> \<exists>s'. pad_font X s = Ok s' \<and> space_padded s s'"
proof -
  assume c: "can_pad s"
  show ?thesis
  proof (cases "32 < length (last s)")
    case True
    then show ?thesis using c pad_font_unchanged[of s X] by (simp add: can_pad_def space_padded_def)
  next
    case False
    then have "pad_font X s
         = Ok (butlast s @ [last s @ take (32 - length (last s)) (free_candidates s 0) @ [32]])"
      and "32 - length (last s) \<le> length (free_candidates s 0)"
      using c pad_font_padded[of s X] by (simp_all add: can_pad_def)
    then show ?thesis using False by (simp add: space_padded_def)
  qed
qed

lemma pad_font_cannot_pad: "\<not> can_pad s \<Longrightarrow> pad_font X s = Aborted"
proof (cases "s = []")
  case True
  then show ?thesis by (simp add: pad_font_def)
next
  case False
  assume "\<not> can_pad s"
  with False have "length (last s) \<le> 32" "length (free_candidates s 0) < 32 - length (last s)"
    by (simp_all add: can_pad_def)
  then show ?thesis using pad_font_aborts[OF False] by blast
qed

lemma pad_fonts_loop_ok:
  "(\<forall>f \<in> set fs. can_pad f) \<Longrightarrow> \<exists>fs'. pad_fonts_loop X fs = Ok fs' \<and> list_all2 space_padded fs fs'"
proof (induction fs)
  case Nil
  then show ?case by simp
next
  case (Cons f rest)
  then obtain rest' where r: "pad_fonts_loop X rest = Ok rest'" "list_all2 space_padded rest rest'"
    by auto
  from Cons.prems obtain f' where f: "pad_font X f = Ok f'" "space_padded f f'"
    using pad_font_can_pad[of f X] by auto
  show ?case using r f by simp
qed

lemma pad_font_no_error: "pad_font X s \<noteq> Err e"
  by (auto simp add: pad_font_def Let_def split: option.splits)

lemma pad_fonts_loop_aborts:
  "(\<exists>f \<in> set fs. \<not> can_pad f) \<Longrightarrow> pad_fonts_loop X fs = Aborted"
proof (induction fs)
  case Nil
  then show ?case by simp
next
  case (Cons f rest)
  show ?case
  proof (cases "can_pad f")
    case True
    then obtain f' where "pad_font X f = Ok f'" using pad_font_can_pad[of f X] by auto
    moreover have "pad_fonts_loop X rest = Aborted" using Cons True by auto
    ultimately show ?thesis by simp
  next
    case False
    then show ?thesis using pad_font_cannot_pad[of f X] by simp
  qed
qed

lemma filter_unused_length:
  assumes "distinct cand"
  shows "length cand - length sub \<le> length (filter (\<lambda>c. c \<notin> set sub) cand)"
proof -
  have split: "length (filter (\<lambda>c. c \<notin> set sub) cand) + length (filter (\<lambda>c. c \<in> set sub) cand)
        = length cand"
    using sum_length_filter_compl[of "\<lambda>c. c \<notin> set sub" cand] by simp
  have "distinct (filter (\<lambda>c. c \<in> set sub) cand)" using assms by simp
  then have "length (filter (\<lambda>c. c \<in> set sub) cand) = card (set (filter (\<lambda>c. c \<in> set sub) cand))"
    by (rule distinct_card[symmetric])
  also have "\<dots> \<le> card (set sub)"
    by (rule card_mono) auto
  also have "\<dots> \<le> length sub" by (rule card_length)
  finally have "length (filter (\<lambda>c. c \<in> set sub) cand) \<le> length sub" .
  with split show ?thesis by simp
qed

lemma one_subset_can_pad:
  assumes "length s = 1"
  shows "can_pad s"
proof -
  obtain sub where s: "s = [sub]" using assms by (cases s) auto
  have "length [33 ..< 132 :: nat] - length sub
          \<le> length (filter (\<lambda>c. c \<notin> set sub) [33 ..< 132])"
    by (rule filter_unused_length) (rule distinct_upt)
  moreover have "length [33 ..< 132 :: nat] = 99"
    by (simp only: length_upt)
  moreover have "free_candidates s 0 = filter (\<lambda>c. c \<notin> set sub) [33 ..< 132]"
    unfolding free_candidates_def s unused_codepoint_def
    by (simp del: upt_rec_numeral)
  ultimately have "32 - length sub \<le> length (free_candidates s 0)"
    by arith
  then show ?thesis
    unfolding can_pad_def s by simp
qed


lemma free_candidates_bounds: "set (free_candidates s i) \<subseteq> {33 + i ..< 132}"
  by (auto simp add: free_candidates_def simp del: upt_rec_numeral)

lemma free_candidates_unused: "c \<in> set (free_candidates s i) \<Longrightarrow> unused_codepoint s c"
  by (simp add: free_candidates_def del: upt_rec_numeral)

lemma free_candidates_ascending: "sorted (free_candidates s i) \<and> distinct (free_candidates s i)"
  unfolding free_candidates_def by (simp add: sorted_wrt_filter del: upt_rec_numeral)

lemma space_padded_shape:
  assumes "s \<noteq> []" "length (last s) \<le> 32" "space_padded s s'"
  shows "length s' = length s \<and> butlast s' = butlast s
         \<and> take (length (last s)) (last s') = last s
         \<and> length (last s') = 33 \<and> last s' ! 32 = 32"
proof -
  let ?pad = "take (32 - length (last s)) (free_candidates s 0)"
  from assms(2,3) have pad: "s' = butlast s @ [last s @ ?pad @ [32]]"
    "32 - length (last s) \<le> length (free_candidates s 0)"
    by (auto simp add: space_padded_def)
  have len: "length (last s @ ?pad) = 32" using assms(2) pad(2) by simp
  have l: "last s' = (last s @ ?pad) @ [32]" using pad(1) by simp
  have "last s' ! 32 = 32"
    unfolding l using len by (metis nth_append_length)
  moreover have "length (last s') = 33" using l len by simp
  moreover have "length s' = length s" using pad(1) assms(1) by simp
  moreover have "butlast s' = butlast s" using pad(1) by simp
  moreover have "take (length (last s)) (last s') = last s" using pad(1) by simp
  ultimately show ?thesis by blast
qed

text \<open>
  What \<open>pad_subset_fonts\<close> does, font by font. When every font of the
  document can be padded (\<open>can_pad\<close>), it returns with each font padded
  (\<open>space_padded\<close>) and nothing else of the document changed: a font whose
  last subset has at most 32 glyphs keeps its earlier subsets and the glyphs of
  the last one, which is filled up with the first free candidates in ascending
  order and then has exactly 33 glyphs, the glyph with local id 32 being the
  space; a font whose last subset has more than 32 glyphs is unchanged. A font
  with a single subset can always be padded. When some font cannot be padded,
  \<open>pad_subset_fonts\<close> aborts.
\<close>

theorem pad_subset_fonts_space:
  "((\<forall>f \<in> set (fonts d). can_pad f) \<longrightarrow>
      (\<exists>fs. pad_subset_fonts X d = (Ok (), d\<lparr>fonts := fs\<rparr>)
            \<and> list_all2 space_padded (fonts d) fs))
   \<and> ((\<exists>f \<in> set (fonts d). \<not> can_pad f) \<longrightarrow> pad_subset_fonts X d = (Aborted, d))
   \<and> (s \<noteq> [] \<and> length (last s) \<le> 32 \<and> space_padded s s' \<longrightarrow>
        length s' = length s \<and> butlast s' = butlast s
        \<and> take (length (last s)) (last s') = last s
        \<and> length (last s') = 33 \<and> last s' ! 32 = 32)
   \<and> (32 < length (last s) \<and> space_padded s s' \<longrightarrow> s' = s)
   \<and> (length s = 1 \<longrightarrow> can_pad s)"
proof -
  have p1: "(\<forall>f \<in> set (fonts d). can_pad f) \<longrightarrow>
      (\<exists>fs. pad_subset_fonts X d = (Ok (), d\<lparr>fonts := fs\<rparr>)
            \<and> list_all2 space_padded (fonts d) fs)"
  proof
    assume "\<forall>f \<in> set (fonts d). can_pad f"
    then obtain fs where "pad_fonts_loop X (fonts d) = Ok fs"
      "list_all2 space_padded (fonts d) fs"
      using pad_fonts_loop_ok[of "fonts d" X] by blast
    then show "\<exists>fs. pad_subset_fonts X d = (Ok (), d\<lparr>fonts := fs\<rparr>)
            \<and> list_all2 space_padded (fonts d) fs"
      by (auto simp add: pad_subset_fonts_def)
  qed
  have p2: "(\<exists>f \<in> set (fonts d). \<not> can_pad f) \<longrightarrow> pad_subset_fonts X d = (Aborted, d)"
  proof
    assume "\<exists>f \<in> set (fonts d). \<not> can_pad f"
    then have "pad_fonts_loop X (fonts d) = Aborted" by (rule pad_fonts_loop_aborts)
    then show "pad_subset_fonts X d = (Aborted, d)" by (simp add: pad_subset_fonts_def)
  qed
  have p3: "s \<noteq> [] \<and> length (last s) \<le> 32 \<and> space_padded s s' \<longrightarrow>
        length s' = length s \<and> butlast s' = butlast s
        \<and> take (length (last s)) (last s') = last s
        \<and> length (last s') = 33 \<and> last s' ! 32 = 32"
    using space_padded_shape[of s s'] by blast
  have p4: "32 < length (last s) \<and> space_padded s s' \<longrightarrow> s' = s"
    by (simp add: space_padded_def)
  have p5: "length s = 1 \<longrightarrow> can_pad s"
    using one_subset_can_pad by blast
  show ?thesis
    by (intro conjI p1 p2 p3 p4 p5)
qed

lemma sample_full_font_cannot_pad: "\<not> can_pad sample_full_font"
proof -
  have "\<forall>c \<in> set [33 ..< 132]. \<not> unused_codepoint sample_full_font c"
    by (auto simp add: unused_codepoint_def sample_full_font_def simp del: upt_rec_numeral)
  then have "free_candidates sample_full_font 0 = []"
    unfolding free_candidates_def by (simp del: upt_rec_numeral)
  then show ?thesis
    by (simp add: can_pad_def sample_full_font_def del: upt_rec_numeral)
qed

text \<open>
  The sibling routine on the last subset of \<open>sample_full_font\<close>: it looks for
  the candidates in that subset only and pads it.
\<close>

lemma pad_until_loop_sample:
  "pad_until_loop [RegularGlyph 1000] 0
     = Some (RegularGlyph 1000 # map RegularGlyph [33 ..< 64])"
  by code_simp

text \<open>
  C1. For a font whose last subset has at most 32 glyphs the padding routine has
  to fill that subset up to 32 glyphs and put the space at local glyph id 32.
  \<open>pad_subset_fonts\<close> does not do so for \<open>sample_full_font\<close>: the first
  subset of the font is full and holds the codepoints 33 to 288, the last subset
  has one glyph, every candidate that the loop requests already has a slot in
  the first subset, so no request adds a glyph and the routine aborts after 100
  rounds. The second padding routine of the same file,
  \<open>pad_subset_until_space\<close>, pads that very subset to 33 glyphs with the space
  at local id 32.
\<close>

theorem pad_subset_fonts_aborts_on_full_font:
  "length (last sample_full_font) = 1
   \<and> pad_subset_fonts sample_externals (sample_doc\<lparr>fonts := [sample_full_font]\<rparr>)
      = (Aborted, sample_doc\<lparr>fonts := [sample_full_font]\<rparr>)
   \<and> pad_subset_until_space sample_externals (map RegularGlyph (last sample_full_font))
      = Ok (RegularGlyph 1000 # map RegularGlyph [33 ..< 64] @ [RegularGlyph 32])
   \<and> length (RegularGlyph 1000 # map RegularGlyph [33 ..< 64] @ [RegularGlyph 32]) = 33
   \<and> (RegularGlyph 1000 # map RegularGlyph [33 ..< 64] @ [RegularGlyph 32]) ! 32
      = RegularGlyph 32"
proof -
  have l: "length (last sample_full_font) = 1"
    by (simp add: sample_full_font_def del: upt_rec_numeral)
  have "pad_fonts_loop sample_externals [sample_full_font] = Aborted"
    by (rule pad_fonts_loop_aborts) (simp add: sample_full_font_cannot_pad)
  then have a: "pad_subset_fonts sample_externals (sample_doc\<lparr>fonts := [sample_full_font]\<rparr>)
      = (Aborted, sample_doc\<lparr>fonts := [sample_full_font]\<rparr>)"
    by (simp add: pad_subset_fonts_def)
  have m: "map RegularGlyph (last sample_full_font) = [RegularGlyph 1000]"
    by (simp add: sample_full_font_def del: upt_rec_numeral)
  have len: "length (RegularGlyph 1000 # map RegularGlyph [33 ..< 64] @ [RegularGlyph 32]) = 33"
    by (simp del: upt_rec_numeral)
  have b: "pad_subset_until_space sample_externals (map RegularGlyph (last sample_full_font))
      = Ok (RegularGlyph 1000 # map RegularGlyph [33 ..< 64] @ [RegularGlyph 32])"
    unfolding m using len
    by (simp add: pad_subset_until_space_def pad_until_loop_sample Let_def del: upt_rec_numeral)
  have n: "(RegularGlyph 1000 # map RegularGlyph [33 ..< 64] @ [RegularGlyph 32]) ! 32
      = RegularGlyph 32"
    by code_simp
  show ?thesis
    by (intro conjI l a b len n)
qed

theorem pad_subset_fonts_space_witness:
  "length sample_small_font = 1 \<and> length (last sample_small_font) \<le> 32
   \<and> length sample_big_font = 1 \<and> 32 < length (last sample_big_font)
   \<and> (\<exists>f'. pad_subset_fonts sample_externals
                (sample_doc\<lparr>fonts := [sample_small_font, sample_big_font]\<rparr>)
              = (Ok (), sample_doc\<lparr>fonts := [f', sample_big_font]\<rparr>)
            \<and> length f' = 1
            \<and> take 3 (last f') = [72, 105, 33]
            \<and> length (last f') = 33 \<and> last f' ! 32 = 32)
   \<and> \<not> can_pad sample_full_font
   \<and> pad_subset_fonts sample_externals (sample_doc\<lparr>fonts := [sample_full_font]\<rparr>)
      = (Aborted, sample_doc\<lparr>fonts := [sample_full_font]\<rparr>)"
proof -
  let ?d = "sample_doc\<lparr>fonts := [sample_small_font, sample_big_font]\<rparr>"
  let ?d2 = "sample_doc\<lparr>fonts := [sample_full_font]\<rparr>"
  note p1 = pad_subset_fonts_space[THEN conjunct1, THEN mp]
  note p2 = pad_subset_fonts_space[THEN conjunct2, THEN conjunct1, THEN mp]
  note p3 = pad_subset_fonts_space[THEN conjunct2, THEN conjunct2, THEN conjunct1, rule_format]
  note p4 = pad_subset_fonts_space[THEN conjunct2, THEN conjunct2, THEN conjunct2,
              THEN conjunct1, rule_format]
  note p5 = pad_subset_fonts_space[THEN conjunct2, THEN conjunct2, THEN conjunct2,
              THEN conjunct2, rule_format]
  have one: "length sample_small_font = 1" "length sample_big_font = 1"
    by (simp_all add: sample_small_font_def sample_big_font_def del: upt_rec_numeral)
  have small: "sample_small_font \<noteq> []" "length (last sample_small_font) \<le> 32"
    by (simp_all add: sample_small_font_def)
  have big: "32 < length (last sample_big_font)"
    by (simp add: sample_big_font_def del: upt_rec_numeral)
  have fd: "fonts ?d = [sample_small_font, sample_big_font]" by simp
  have cp: "\<forall>f \<in> set (fonts ?d). can_pad f"
    unfolding fd using p5[OF one(1)] p5[OF one(2)] by simp
  obtain fs where fs: "pad_subset_fonts sample_externals ?d = (Ok (), ?d\<lparr>fonts := fs\<rparr>)"
    "list_all2 space_padded (fonts ?d) fs"
    using p1[of ?d sample_externals, OF cp] by blast
  from fs(2) obtain f' g' where f': "fs = [f', g']" "space_padded sample_small_font f'"
    "space_padded sample_big_font g'"
    unfolding fd by (auto simp add: list_all2_Cons1)
  have g': "g' = sample_big_font"
    using p4[of sample_big_font g'] big f'(3) by blast
  have shape: "length f' = length sample_small_font \<and> butlast f' = butlast sample_small_font
     \<and> take (length (last sample_small_font)) (last f') = last sample_small_font
     \<and> length (last f') = 33 \<and> last f' ! 32 = 32"
    using p3[of sample_small_font f'] small f'(2) by blast
  have l3: "length (last sample_small_font) = 3" "last sample_small_font = [72, 105, 33]"
    by (simp_all add: sample_small_font_def)
  have "take (length (last sample_small_font)) (last f') = last sample_small_font"
    using shape by blast
  then have t3: "take 3 (last f') = [72, 105, 33]"
    by (simp add: l3(2) numeral_3_eq_3)
  have ok: "pad_subset_fonts sample_externals ?d
              = (Ok (), sample_doc\<lparr>fonts := [f', sample_big_font]\<rparr>)"
    using fs(1) f'(1) g' by simp
  have fd2: "fonts ?d2 = [sample_full_font]" by simp
  have "\<exists>f \<in> set (fonts ?d2). \<not> can_pad f"
    unfolding fd2 using sample_full_font_cannot_pad by simp
  then have ab: "pad_subset_fonts sample_externals ?d2 = (Aborted, ?d2)"
    by (rule p2)
  have lf: "length f' = 1" using shape one(1) by simp
  have ex: "\<exists>f'. pad_subset_fonts sample_externals ?d
              = (Ok (), sample_doc\<lparr>fonts := [f', sample_big_font]\<rparr>)
            \<and> length f' = 1
            \<and> take 3 (last f') = [72, 105, 33]
            \<and> length (last f') = 33 \<and> last f' ! 32 = 32"
    using ok lf t3 shape by blast
  show ?thesis
    by (intro conjI one small(2) big ex ab sample_full_font_cannot_pad)
qed

end
